theory Spec2Isabelle
  imports Complex_Main "HOL-Library.AList"
begin

section \<open>Values carried by pipeline messages\<close>

text \<open>
  Every pipeline message is a Python dict obtained from \<open>json.loads\<close> (or built by a
  stage and passed to \<open>json.dumps\<close>). A JSON value is modelled by the datatype below;
  an object is an association list in insertion order, looked up with \<open>map_of\<close>.
  Strings are sequences of code points below 256. A float is modelled by the exact
  rational it denotes; the non-standard literals NaN and Infinity are not modelled.
\<close>

datatype json =
    JNull
  | JBool bool
  | JInt int
  | JFloat rat
  | JStr string
  | JList "json list"
  | JObj "(string \<times> json) list"

type_synonym pydict = "(string \<times> json) list"

text \<open>Exceptions that the stages can meet, with the text that \<open>str(e)\<close> gives.\<close>

datatype py_error =
    AttributeError string
  | TypeError string
  | ValueError string
  | OverflowError string

fun error_text :: "py_error \<Rightarrow> string" where
  "error_text (AttributeError s) = s"
| "error_text (TypeError s) = s"
| "error_text (ValueError s) = s"
| "error_text (OverflowError s) = s"

fun type_name :: "json \<Rightarrow> string" where
  "type_name JNull = ''NoneType''"
| "type_name (JBool _) = ''bool''"
| "type_name (JInt _) = ''int''"
| "type_name (JFloat _) = ''float''"
| "type_name (JStr _) = ''str''"
| "type_name (JList _) = ''list''"
| "type_name (JObj _) = ''dict''"

definition no_attribute :: "json \<Rightarrow> string \<Rightarrow> py_error" where
  "no_attribute v a =
     AttributeError ([CHR 0x27] @ type_name v @ [CHR 0x27] @ '' object has no attribute ''
                     @ [CHR 0x27] @ a @ [CHR 0x27])"

text \<open>\<open>d.get(k, dflt)\<close> on a dict, and on an arbitrary value (which raises unless it is a dict).\<close>

definition dict_get :: "pydict \<Rightarrow> string \<Rightarrow> json \<Rightarrow> json" where
  "dict_get d k dflt = (case map_of d k of None \<Rightarrow> dflt | Some v \<Rightarrow> v)"

definition obj_get :: "json \<Rightarrow> string \<Rightarrow> json \<Rightarrow> py_error + json" where
  "obj_get v k dflt =
     (case v of JObj d \<Rightarrow> Inr (dict_get d k dflt) | _ \<Rightarrow> Inl (no_attribute v ''get''))"

text \<open>Truth value of a Python object, as tested by \<open>if not server_id\<close>.\<close>

fun truthy :: "json \<Rightarrow> bool" where
  "truthy JNull = False"
| "truthy (JBool b) = b"
| "truthy (JInt n) = (n \<noteq> 0)"
| "truthy (JFloat r) = (r \<noteq> 0)"
| "truthy (JStr s) = (s \<noteq> [])"
| "truthy (JList xs) = (xs \<noteq> [])"
| "truthy (JObj d) = (d \<noteq> [])"

subsection \<open>Formatting and parsing\<close>

fun str_nat :: "nat \<Rightarrow> string" where
  "str_nat n =
     (if n < 10 then [''0123456789'' ! n]
      else str_nat (n div 10) @ [''0123456789'' ! (n mod 10)])"

declare str_nat.simps [simp del]

definition str_int :: "int \<Rightarrow> string" where
  "str_int i = (if i < 0 then CHR ''-'' # str_nat (nat (- i)) else str_nat (nat i))"

text \<open>
  What the processor needs from the Python runtime and from its own construction:
  \<open>datetime.isoformat\<close> on a point in time (microseconds on the local clock), the
  \<open>repr\<close> of floats and of containers, and the processor id drawn when the processor
  was created.
\<close>

record runtime =
  isoformat :: "int \<Rightarrow> string"
  py_repr :: "json \<Rightarrow> string"
  processor_id :: string

text \<open>\<open>str(v)\<close>, as used by the f-strings.\<close>

definition py_str :: "runtime \<Rightarrow> json \<Rightarrow> string" where
  "py_str rt v =
     (case v of
        JNull \<Rightarrow> ''None''
      | JBool b \<Rightarrow> (if b then ''True'' else ''False'')
      | JInt n \<Rightarrow> str_int n
      | JStr s \<Rightarrow> s
      | _ \<Rightarrow> py_repr rt v)"

text \<open>
  \<open>int(s)\<close> on a string: surrounding white space is dropped, one sign is allowed, and
  the digits may be separated by single underscores. The interpreter's optional limit on
  the number of digits is not modelled.
\<close>

definition int_space :: "char \<Rightarrow> bool" where
  "int_space c = (c \<in> set [CHR 0x09, CHR 0x0A, CHR 0x0B, CHR 0x0C, CHR 0x0D, CHR 0x20,
                            CHR 0x85, CHR 0xA0])"

definition digit_val :: "char \<Rightarrow> nat option" where
  "digit_val c = map_of (zip ''0123456789'' [0, 1, 2, 3, 4, 5, 6, 7, 8, 9]) c"

fun parse_digits :: "nat \<Rightarrow> string \<Rightarrow> nat option" where
  "parse_digits acc [] = Some acc"
| "parse_digits acc [c] =
     (case digit_val c of None \<Rightarrow> None | Some v \<Rightarrow> Some (10 * acc + v))"
| "parse_digits acc (c # d # ds) =
     (if c = CHR ''_'' then
        (case digit_val d of None \<Rightarrow> None | Some v \<Rightarrow> parse_digits (10 * acc + v) ds)
      else
        (case digit_val c of None \<Rightarrow> None | Some v \<Rightarrow> parse_digits (10 * acc + v) (d # ds)))"

definition parse_unsigned :: "string \<Rightarrow> nat option" where
  "parse_unsigned s =
     (case s of
        [] \<Rightarrow> None
      | c # cs \<Rightarrow> (case digit_val c of None \<Rightarrow> None | Some v \<Rightarrow> parse_digits v cs))"

definition py_int_str :: "string \<Rightarrow> int option" where
  "py_int_str s =
     (let t = dropWhile int_space s;
          neg = (t \<noteq> [] \<and> hd t = CHR ''-'');
          u = (if t \<noteq> [] \<and> (hd t = CHR ''-'' \<or> hd t = CHR ''+'') then tl t else t);
          body = rev (dropWhile int_space (rev u))
      in case parse_unsigned body of
           None \<Rightarrow> None
         | Some n \<Rightarrow> Some (if neg then - int n else int n))"

text \<open>\<open>int(v)\<close> on an arbitrary value; a float is truncated towards zero.\<close>

definition py_int :: "json \<Rightarrow> py_error + int" where
  "py_int v =
     (case v of
        JStr s \<Rightarrow> (case py_int_str s of
                     Some n \<Rightarrow> Inr n
                   | None \<Rightarrow> Inl (ValueError ''invalid literal for int() with base 10''))
      | JInt n \<Rightarrow> Inr n
      | JBool b \<Rightarrow> Inr (if b then 1 else 0)
      | JFloat r \<Rightarrow> Inr (if 0 \<le> r then \<lfloor>r\<rfloor> else \<lceil>r\<rceil>)
      | _ \<Rightarrow> Inl (TypeError (''int() argument must be a string, a bytes-like object or a real number, not ''
                             @ [CHR 0x27] @ type_name v @ [CHR 0x27])))"

text \<open>
  \<open>s.upper()\<close>: the letters a to z are raised and the sharp s becomes SS. The other
  letters beyond ASCII are left as they are; none of them can take part in a match with
  an ASCII prefix.
\<close>

definition upper_char :: "char \<Rightarrow> string" where
  "upper_char c =
     (if c = CHR 0xDF then ''SS''
      else case map_of (zip ''abcdefghijklmnopqrstuvwxyz'' ''ABCDEFGHIJKLMNOPQRSTUVWXYZ'') c of
             None \<Rightarrow> [c]
           | Some u \<Rightarrow> [u])"

definition upper :: "string \<Rightarrow> string" where
  "upper s = concat (map upper_char s)"

definition py_upper :: "json \<Rightarrow> py_error + string" where
  "py_upper v = (case v of JStr s \<Rightarrow> Inr (upper s) | _ \<Rightarrow> Inl (no_attribute v ''upper''))"

definition startswith :: "string \<Rightarrow> string \<Rightarrow> bool" where
  "startswith s p = (take (length p) s = p)"

section \<open>Routing predicates of the four stages\<close>

definition check_should_process_message :: "pydict \<Rightarrow> bool" where
  "check_should_process_message message_data =
     (dict_get message_data ''action'' JNull = JStr ''check_server'' \<and>
      dict_get message_data ''status'' JNull = JStr ''pending'')"

definition poweroff_should_process_message :: "pydict \<Rightarrow> bool" where
  "poweroff_should_process_message message_data =
     (dict_get message_data ''action'' JNull = JStr ''poweroff_server'' \<and>
      dict_get message_data ''status'' JNull = JStr ''pending'')"

definition cooling_should_process_message :: "pydict \<Rightarrow> bool" where
  "cooling_should_process_message message_data =
     (let action = dict_get message_data ''action'' JNull;
          status = dict_get message_data ''status'' JNull
      in action = JStr ''start_cooling_period'' \<and> status = JStr ''pending'')"

definition demise_should_process_message :: "pydict \<Rightarrow> bool" where
  "demise_should_process_message message_data =
     (dict_get message_data ''action'' JNull = JStr ''demise_server'' \<and>
      dict_get message_data ''status'' JNull = JStr ''pending'')"

text \<open>The processors in the order in which the pipeline manager creates them.\<close>

definition stage_predicates :: "(pydict \<Rightarrow> bool) list" where
  "stage_predicates =
     [check_should_process_message, poweroff_should_process_message,
      cooling_should_process_message, demise_should_process_message]"

section \<open>Stage 1: server check\<close>

definition valid_prefixes :: "string list" where
  "valid_prefixes = [''SRV'', ''HOST'', ''VM'', ''PROD'', ''TEST'']"

definition check_server_in_portal :: "json \<Rightarrow> py_error + bool" where
  "check_server_in_portal server_id =
     (case py_int server_id of
        Inr server_num \<Rightarrow> Inr (100 \<le> server_num \<and> server_num \<le> 999)
      | Inl (ValueError _) \<Rightarrow>
          (case py_upper server_id of
             Inl e \<Rightarrow> Inl e
           | Inr u \<Rightarrow> Inr (list_ex (\<lambda>prefix. startswith u prefix) valid_prefixes))
      | Inl e \<Rightarrow> Inl e)"

definition check_create_error_response ::
  "runtime \<Rightarrow> string \<Rightarrow> int \<Rightarrow> pydict \<Rightarrow> string \<Rightarrow> string \<Rightarrow> pydict" where
  "check_create_error_response rt uid now original_message error_msg final_status =
     [(''id'', JStr uid),
      (''original_request_id'', dict_get original_message ''id'' JNull),
      (''action'', JStr ''demise_complete''),
      (''status'', JStr final_status),
      (''processor'', JStr ''ServerCheckProcessor''),
      (''processor_id'', JStr (processor_id rt)),
      (''timestamp'', JStr (isoformat rt now)),
      (''data'', dict_get original_message ''data'' (JObj [])),
      (''error'', JStr error_msg),
      (''message'', JStr (''Pipeline terminated: '' @ error_msg)),
      (''pipeline_step'', JInt 1),
      (''pipeline_complete'', JBool True)]"

definition check_success_response ::
  "runtime \<Rightarrow> string \<Rightarrow> int \<Rightarrow> pydict \<Rightarrow> json \<Rightarrow> pydict" where
  "check_success_response rt uid now message_data server_id =
     [(''id'', JStr uid),
      (''original_request_id'', dict_get message_data ''id'' JNull),
      (''action'', JStr ''poweroff_server''),
      (''status'', JStr ''pending''),
      (''processor'', JStr ''ServerCheckProcessor''),
      (''processor_id'', JStr (processor_id rt)),
      (''timestamp'', JStr (isoformat rt now)),
      (''data'', JObj
         [(''server_id'', server_id),
          (''server_details'', JObj
             [(''hostname'', JStr (''server-'' @ py_str rt server_id)),
              (''ip_address'', JStr (''192.168.1.'' @ py_str rt server_id)),
              (''status'', JStr ''active''),
              (''location'', JStr ''datacenter-1'')]),
          (''check_result'', JStr ''server_found''),
          (''original_request'', dict_get message_data ''data'' (JObj []))]),
      (''message'', JStr (''Server '' @ py_str rt server_id @ '' found in portal. Ready for power off.'')),
      (''pipeline_step'', JInt 1),
      (''next_step'', JStr ''poweroff_server'')]"

text \<open>
  \<open>process_message\<close> of the check stage. \<open>uid\<close> is the uuid drawn for the answer and
  \<open>now\<close> the clock reading of its timestamp. Every exception of the body is turned
  into an error answer by the surrounding \<open>try\<close>.
\<close>

definition check_process_message :: "runtime \<Rightarrow> string \<Rightarrow> int \<Rightarrow> pydict \<Rightarrow> pydict" where
  "check_process_message rt uid now message_data =
     (case obj_get (dict_get message_data ''data'' (JObj [])) ''server_id'' JNull of
        Inl e \<Rightarrow> check_create_error_response rt uid now message_data
                   (''Server check failed: '' @ error_text e) ''error''
      | Inr server_id \<Rightarrow>
          if \<not> truthy server_id then
            check_create_error_response rt uid now message_data ''Server ID is required'' ''error''
          else
            (case check_server_in_portal server_id of
               Inl e \<Rightarrow> check_create_error_response rt uid now message_data
                          (''Server check failed: '' @ error_text e) ''error''
             | Inr server_exists \<Rightarrow>
                 if server_exists then check_success_response rt uid now message_data server_id
                 else check_create_error_response rt uid now message_data
                        (''Server '' @ py_str rt server_id @ '' not found in portal'') ''failed''))"

section \<open>Stage 2: power off\<close>

text \<open>
  The simulated power-off. \<open>rnd_ok\<close> is the outcome of the draw
  \<open>random.random() > 0.1\<close>. The first log line reads \<open>server_details.get('ip_address')\<close>,
  which raises when the details are not a dict; the function's own handler turns that
  into a failure result.
\<close>

definition execute_server_poweroff :: "bool \<Rightarrow> json \<Rightarrow> json \<Rightarrow> pydict" where
  "execute_server_poweroff rnd_ok server_id server_details =
     (case obj_get server_details ''ip_address'' JNull of
        Inl e \<Rightarrow>
          [(''success'', JBool False),
           (''error'', JStr (error_text e)),
           (''power_status'', JStr ''unknown'')]
      | Inr _ \<Rightarrow>
          if rnd_ok then
            [(''success'', JBool True),
             (''power_status'', JStr ''off''),
             (''poweroff_method'', JStr ''IPMI''),
             (''execution_time'', JStr ''4.5s''),
             (''verification'', JStr ''confirmed_off'')]
          else
            [(''success'', JBool False),
             (''error'', JStr ''IPMI connection timeout''),
             (''power_status'', JStr ''unknown''),
             (''attempted_method'', JStr ''IPMI'')])"

definition poweroff_create_error_response ::
  "runtime \<Rightarrow> string \<Rightarrow> int \<Rightarrow> pydict \<Rightarrow> string \<Rightarrow> string \<Rightarrow> pydict" where
  "poweroff_create_error_response rt uid now original_message error_msg final_status =
     [(''id'', JStr uid),
      (''original_request_id'',
         dict_get original_message ''original_request_id'' (dict_get original_message ''id'' JNull)),
      (''action'', JStr ''demise_complete''),
      (''status'', JStr final_status),
      (''processor'', JStr ''ServerPowerOffProcessor''),
      (''processor_id'', JStr (processor_id rt)),
      (''timestamp'', JStr (isoformat rt now)),
      (''data'', dict_get original_message ''data'' (JObj [])),
      (''error'', JStr error_msg),
      (''message'', JStr (''Pipeline terminated: '' @ error_msg)),
      (''pipeline_step'', JInt 2),
      (''pipeline_complete'', JBool True)]"

definition poweroff_success_response ::
  "runtime \<Rightarrow> string \<Rightarrow> int \<Rightarrow> int \<Rightarrow> pydict \<Rightarrow> pydict \<Rightarrow> json \<Rightarrow> json \<Rightarrow> pydict \<Rightarrow> pydict" where
  "poweroff_success_response rt uid now now2 message_data server_data server_id server_details
       poweroff_result =
     [(''id'', JStr uid),
      (''original_request_id'',
         dict_get message_data ''original_request_id'' (dict_get message_data ''id'' JNull)),
      (''action'', JStr ''demise_server''),
      (''status'', JStr ''pending''),
      (''processor'', JStr ''ServerPowerOffProcessor''),
      (''processor_id'', JStr (processor_id rt)),
      (''timestamp'', JStr (isoformat rt now)),
      (''data'', JObj
         [(''server_id'', server_id),
          (''server_details'', server_details),
          (''poweroff_result'', JObj poweroff_result),
          (''poweroff_timestamp'', JStr (isoformat rt now2)),
          (''original_request'', dict_get server_data ''original_request'' (JObj []))]),
      (''message'',
         JStr (''Server '' @ py_str rt server_id @ '' powered off successfully. Ready for demise request.'')),
      (''pipeline_step'', JInt 2),
      (''next_step'', JStr ''demise_server'')]"

text \<open>
  \<open>process_message\<close> of the power-off stage; \<open>now\<close> and \<open>now2\<close> are the two clock
  readings of the success answer (its timestamp and the power-off timestamp).
\<close>

definition poweroff_process_message ::
  "runtime \<Rightarrow> string \<Rightarrow> int \<Rightarrow> int \<Rightarrow> bool \<Rightarrow> pydict \<Rightarrow> pydict" where
  "poweroff_process_message rt uid now now2 rnd_ok message_data =
     (case dict_get message_data ''data'' (JObj []) of
        JObj server_data \<Rightarrow>
          (let server_id = dict_get server_data ''server_id'' JNull;
               server_details = dict_get server_data ''server_details'' (JObj [])
           in if \<not> truthy server_id then
                poweroff_create_error_response rt uid now message_data ''Server ID is required'' ''error''
              else
                (let poweroff_result = execute_server_poweroff rnd_ok server_id server_details
                 in if truthy (dict_get poweroff_result ''success'' JNull) then
                      poweroff_success_response rt uid now now2 message_data server_data server_id
                        server_details poweroff_result
                    else
                      poweroff_create_error_response rt uid now message_data
                        (''Failed to power off server '' @ py_str rt server_id @ '': ''
                         @ py_str rt (dict_get poweroff_result ''error'' JNull)) ''failed''))
      | v \<Rightarrow> poweroff_create_error_response rt uid now message_data
               (''Server power off failed: '' @ error_text (no_attribute v ''get'')) ''error'')"

section \<open>Stage 3: demise\<close>

text \<open>
  The simulated decommissioning. \<open>rnd_ok\<close> is the outcome of \<open>random.random() > 0.05\<close>,
  \<open>epoch\<close> is \<open>int(time.time())\<close> and \<open>now3\<close> the clock reading of the decommission date.
\<close>

definition execute_server_demise ::
  "runtime \<Rightarrow> bool \<Rightarrow> int \<Rightarrow> int \<Rightarrow> json \<Rightarrow> json \<Rightarrow> json \<Rightarrow> pydict" where
  "execute_server_demise rt rnd_ok epoch now3 server_id server_details poweroff_result =
     (if rnd_ok then
        [(''success'', JBool True),
         (''demise_ticket_id'', JStr (''DM-'' @ str_int epoch @ ''-'' @ py_str rt server_id)),
         (''status'', JStr ''decommissioned''),
         (''steps_completed'', JList
            [JStr ''removed_from_monitoring'', JStr ''inventory_updated'', JStr ''dns_dhcp_removed'',
             JStr ''asset_management_updated'', JStr ''load_balancer_updated'',
             JStr ''config_management_updated'', JStr ''decommission_ticket_created'']),
         (''execution_time'', JStr ''3.1s''),
         (''decommission_date'', JStr (isoformat rt now3))]
      else
        [(''success'', JBool False),
         (''error'', JStr ''Asset management system unavailable''),
         (''status'', JStr ''partial_demise''),
         (''steps_completed'', JList [JStr ''removed_from_monitoring'', JStr ''inventory_updated''])])"

text \<open>
  \<open>elapsed_text\<close> is what the timestamp arithmetic of \<open>_calculate_processing_time\<close>
  yields (the formatted duration, or \<open>unknown\<close> when the timestamp does not parse).
\<close>

definition calculate_processing_time :: "string \<Rightarrow> pydict \<Rightarrow> string" where
  "calculate_processing_time elapsed_text original_message =
     (if map_of original_message ''timestamp'' \<noteq> None then elapsed_text else ''unknown'')"

definition demise_create_error_response ::
  "runtime \<Rightarrow> string \<Rightarrow> int \<Rightarrow> pydict \<Rightarrow> string \<Rightarrow> string \<Rightarrow> pydict" where
  "demise_create_error_response rt uid now original_message error_msg final_status =
     [(''id'', JStr uid),
      (''original_request_id'',
         dict_get original_message ''original_request_id'' (dict_get original_message ''id'' JNull)),
      (''action'', JStr ''demise_complete''),
      (''status'', JStr final_status),
      (''processor'', JStr ''ServerDemiseProcessor''),
      (''processor_id'', JStr (processor_id rt)),
      (''timestamp'', JStr (isoformat rt now)),
      (''data'', dict_get original_message ''data'' (JObj [])),
      (''error'', JStr error_msg),
      (''message'', JStr (''Pipeline terminated: '' @ error_msg)),
      (''pipeline_step'', JInt 3),
      (''pipeline_complete'', JBool True)]"

definition demise_success_response ::
  "runtime \<Rightarrow> string \<Rightarrow> int \<Rightarrow> int \<Rightarrow> string \<Rightarrow> pydict \<Rightarrow> pydict \<Rightarrow> json \<Rightarrow> json \<Rightarrow> json \<Rightarrow> pydict
     \<Rightarrow> pydict" where
  "demise_success_response rt uid now now2 elapsed_text message_data server_data server_id
       server_details poweroff_result demise_result =
     [(''id'', JStr uid),
      (''original_request_id'',
         dict_get message_data ''original_request_id'' (dict_get message_data ''id'' JNull)),
      (''action'', JStr ''demise_complete''),
      (''status'', JStr ''completed''),
      (''processor'', JStr ''ServerDemiseProcessor''),
      (''processor_id'', JStr (processor_id rt)),
      (''timestamp'', JStr (isoformat rt now)),
      (''data'', JObj
         [(''server_id'', server_id),
          (''server_details'', server_details),
          (''poweroff_result'', poweroff_result),
          (''demise_result'', JObj demise_result),
          (''completion_timestamp'', JStr (isoformat rt now2)),
          (''pipeline_summary'', JObj
             [(''step_1'', JStr ''Server found in portal''),
              (''step_2'', JStr ''Server powered off successfully''),
              (''step_3'', JStr ''Server demise request completed'')]),
          (''original_request'', dict_get server_data ''original_request'' (JObj []))]),
      (''message'',
         JStr (''Server '' @ py_str rt server_id @ '' demise process completed successfully.'')),
      (''pipeline_step'', JInt 3),
      (''pipeline_complete'', JBool True),
      (''total_processing_time'', JStr (calculate_processing_time elapsed_text message_data))]"

definition demise_process_message ::
  "runtime \<Rightarrow> string \<Rightarrow> int \<Rightarrow> int \<Rightarrow> int \<Rightarrow> int \<Rightarrow> bool \<Rightarrow> string \<Rightarrow> pydict \<Rightarrow> pydict" where
  "demise_process_message rt uid now now2 now3 epoch rnd_ok elapsed_text message_data =
     (case dict_get message_data ''data'' (JObj []) of
        JObj server_data \<Rightarrow>
          (let server_id = dict_get server_data ''server_id'' JNull;
               server_details = dict_get server_data ''server_details'' (JObj []);
               poweroff_result = dict_get server_data ''poweroff_result'' (JObj [])
           in if \<not> truthy server_id then
                demise_create_error_response rt uid now message_data ''Server ID is required'' ''error''
              else
                (let demise_result =
                       execute_server_demise rt rnd_ok epoch now3 server_id server_details poweroff_result
                 in if truthy (dict_get demise_result ''success'' JNull) then
                      demise_success_response rt uid now now2 elapsed_text message_data server_data
                        server_id server_details poweroff_result demise_result
                    else
                      demise_create_error_response rt uid now message_data
                        (''Failed to demise server '' @ py_str rt server_id @ '': ''
                         @ py_str rt (dict_get demise_result ''error'' JNull)) ''failed''))
      | v \<Rightarrow> demise_create_error_response rt uid now message_data
               (''Server demise failed: '' @ error_text (no_attribute v ''get'')) ''error'')"

section \<open>The receive, filter, execute, emit step of the processor base\<close>

text \<open>
  \<open>_handle_message\<close>: a message that the stage does not accept is dropped; otherwise the
  answer of \<open>process_message\<close>, when it is a non-empty dict, is sent to the topic. The
  topic is the list of the messages produced so far; the broker is taken to accept
  every send.
\<close>

definition handle_message ::
  "(pydict \<Rightarrow> bool) \<Rightarrow> (pydict \<Rightarrow> pydict) \<Rightarrow> pydict list \<Rightarrow> pydict \<Rightarrow> pydict list" where
  "handle_message should_process process topic_log message_data =
     (if \<not> should_process message_data then topic_log
      else (let result = process message_data
            in if result \<noteq> [] then topic_log @ [result] else topic_log))"

section \<open>Stage 2.5: the cooling-period monitor\<close>

subsection \<open>State\<close>

text \<open>
  A cooling session is the dict \<open>cooling_info\<close>. The same dict object is stored in
  \<open>self.cooling_sessions\<close> and captured by the monitoring thread, which updates it in
  place; so the dicts live in a store addressed by references, and the session map and
  the threads hold references. Points in time are microseconds on the local clock.
\<close>

record cooling_info =
  ci_server_id :: json
  ci_server_details :: json
  ci_poweroff_timestamp :: json
  ci_cooling_start :: int
  ci_cooling_end :: int
  ci_original_message :: pydict
  ci_check_count :: int
  ci_last_check :: "int option"
  ci_status :: string

text \<open>
  \<open>infos\<close> is the store and \<open>next_ref\<close> the next free reference;
  \<open>cooling_sessions\<close> and \<open>cooling_threads\<close> are the two dicts of the processor, keyed
  by server id; \<open>monitors\<close> lists the threads started so far, each by the reference of
  the session it watches; \<open>topic\<close> is the list of the messages sent to the pipeline topic.
\<close>

record cooling_state =
  infos :: "nat \<Rightarrow> cooling_info"
  next_ref :: nat
  cooling_sessions :: "(json \<times> nat) list"
  cooling_threads :: "(json \<times> nat) list"
  monitors :: "nat list"
  topic :: "pydict list"

definition cooling_period_hours :: int where
  "cooling_period_hours = 48"

definition check_interval_hours :: int where
  "check_interval_hours = 2"

definition hour :: int where
  "hour = 3600000000"

text \<open>
  Keys of a Python dict: lists and dicts cannot be hashed; \<open>True\<close>, \<open>1\<close> and \<open>1.0\<close> are
  one and the same key.
\<close>

fun hashable :: "json \<Rightarrow> bool" where
  "hashable (JList _) = False"
| "hashable (JObj _) = False"
| "hashable _ = True"

fun hash_key :: "json \<Rightarrow> json" where
  "hash_key (JBool b) = JInt (if b then 1 else 0)"
| "hash_key (JFloat r) = (if of_int \<lfloor>r\<rfloor> = r then JInt \<lfloor>r\<rfloor> else JFloat r)"
| "hash_key v = v"

definition unhashable :: "json \<Rightarrow> py_error" where
  "unhashable v = TypeError (''unhashable type: '' @ [CHR 0x27] @ type_name v @ [CHR 0x27])"

text \<open>\<open>_send_response\<close>: the message is appended to the topic.\<close>

definition send_response :: "pydict \<Rightarrow> cooling_state \<Rightarrow> cooling_state" where
  "send_response response_data st = st\<lparr>topic := topic st @ [response_data]\<rparr>"

text \<open>\<open>if server_id in self.cooling_sessions: del self.cooling_sessions[server_id]\<close>.\<close>

definition remove_session :: "json \<Rightarrow> cooling_state \<Rightarrow> cooling_state" where
  "remove_session server_id st =
     (if hash_key server_id \<in> fst ` set (cooling_sessions st)
      then st\<lparr>cooling_sessions := AList.delete (hash_key server_id) (cooling_sessions st)\<rparr>
      else st)"

subsection \<open>Accepting a message\<close>

definition cooling_create_error_response ::
  "runtime \<Rightarrow> string \<Rightarrow> int \<Rightarrow> pydict \<Rightarrow> string \<Rightarrow> string \<Rightarrow> pydict" where
  "cooling_create_error_response rt uid now original_message error_msg final_status =
     [(''id'', JStr uid),
      (''original_request_id'',
         dict_get original_message ''original_request_id'' (dict_get original_message ''id'' JNull)),
      (''action'', JStr ''cooling_error''),
      (''status'', JStr final_status),
      (''processor'', JStr ''ServerCoolingPeriodProcessor''),
      (''processor_id'', JStr (processor_id rt)),
      (''timestamp'', JStr (isoformat rt now)),
      (''data'', dict_get original_message ''data'' (JObj [])),
      (''error'', JStr error_msg),
      (''message'', JStr (''Cooling period failed: '' @ error_msg)),
      (''pipeline_step'', JStr ''2.5''),
      (''pipeline_complete'', JBool True)]"

definition create_status_response :: "runtime \<Rightarrow> string \<Rightarrow> int \<Rightarrow> pydict \<Rightarrow> string \<Rightarrow> pydict" where
  "create_status_response rt uid now original_message status_msg =
     [(''id'', JStr uid),
      (''original_request_id'',
         dict_get original_message ''original_request_id'' (dict_get original_message ''id'' JNull)),
      (''action'', JStr ''cooling_status''),
      (''status'', JStr ''info''),
      (''processor'', JStr ''ServerCoolingPeriodProcessor''),
      (''processor_id'', JStr (processor_id rt)),
      (''timestamp'', JStr (isoformat rt now)),
      (''data'', dict_get original_message ''data'' (JObj [])),
      (''message'', JStr status_msg),
      (''pipeline_step'', JStr ''2.5'')]"

text \<open>
  The readings that one call of \<open>process_message\<close> takes from its environment: the
  uuid of the answer, and the clock at the default of the power-off timestamp, at
  \<open>cooling_start\<close>, at \<open>cooling_end\<close> and at the timestamp of the answer.
\<close>

record start_env =
  se_uid :: string
  se_now_default :: int
  se_now_start :: int
  se_now_end :: int
  se_now_msg :: int

definition cooling_started_response ::
  "runtime \<Rightarrow> start_env \<Rightarrow> pydict \<Rightarrow> json \<Rightarrow> cooling_info \<Rightarrow> pydict" where
  "cooling_started_response rt env message_data server_id cooling_info =
     [(''id'', JStr (se_uid env)),
      (''original_request_id'',
         dict_get message_data ''original_request_id'' (dict_get message_data ''id'' JNull)),
      (''action'', JStr ''cooling_period_started''),
      (''status'', JStr ''monitoring''),
      (''processor'', JStr ''ServerCoolingPeriodProcessor''),
      (''processor_id'', JStr (processor_id rt)),
      (''timestamp'', JStr (isoformat rt (se_now_msg env))),
      (''data'', JObj
         [(''server_id'', server_id),
          (''server_details'', ci_server_details cooling_info),
          (''cooling_start'', JStr (isoformat rt (ci_cooling_start cooling_info))),
          (''cooling_end'', JStr (isoformat rt (ci_cooling_end cooling_info))),
          (''cooling_period_hours'', JInt cooling_period_hours),
          (''check_interval_hours'', JInt check_interval_hours),
          (''poweroff_timestamp'', ci_poweroff_timestamp cooling_info)]),
      (''message'',
         JStr (''Server '' @ py_str rt server_id
               @ '' entered 48-hour cooling period. Monitoring every 2 hours.'')),
      (''pipeline_step'', JStr ''2.5''),
      (''next_step'', JStr ''cooling_monitor'')]"

text \<open>
  \<open>_start_cooling_monitor\<close>: a thread is started for the session and recorded in
  \<open>self.cooling_threads\<close>. What the thread does is \<open>monitor_cooling_period\<close> below.
\<close>

definition start_cooling_monitor :: "json \<Rightarrow> nat \<Rightarrow> cooling_state \<Rightarrow> cooling_state" where
  "start_cooling_monitor server_id ref st =
     st\<lparr>monitors := monitors st @ [ref],
        cooling_threads := AList.update (hash_key server_id) ref (cooling_threads st)\<rparr>"

definition cooling_process_message ::
  "runtime \<Rightarrow> start_env \<Rightarrow> pydict \<Rightarrow> cooling_state \<Rightarrow> pydict \<times> cooling_state" where
  "cooling_process_message rt env message_data st =
     (case dict_get message_data ''data'' (JObj []) of
        JObj server_data \<Rightarrow>
          (let server_id = dict_get server_data ''server_id'' JNull
           in if \<not> truthy server_id then
                (cooling_create_error_response rt (se_uid env) (se_now_msg env) message_data
                   ''Server ID is required for cooling period'' ''error'', st)
              else if \<not> hashable server_id then
                (cooling_create_error_response rt (se_uid env) (se_now_msg env) message_data
                   (''Cooling period start failed: '' @ error_text (unhashable server_id)) ''error'', st)
              else if hash_key server_id \<in> fst ` set (cooling_sessions st) then
                (create_status_response rt (se_uid env) (se_now_msg env) message_data
                   ''Server already in cooling period'', st)
              else
                (let cooling_info =
                       \<lparr>ci_server_id = server_id,
                        ci_server_details = dict_get server_data ''server_details'' (JObj []),
                        ci_poweroff_timestamp =
                          dict_get server_data ''poweroff_timestamp''
                            (JStr (isoformat rt (se_now_default env))),
                        ci_cooling_start = se_now_start env,
                        ci_cooling_end = se_now_end env + cooling_period_hours * hour,
                        ci_original_message = message_data,
                        ci_check_count = 0,
                        ci_last_check = None,
                        ci_status = ''monitoring''\<rparr>;
                     ref = next_ref st;
                     st1 = st\<lparr>infos := (infos st)(ref := cooling_info), next_ref := Suc ref\<rparr>;
                     st2 = st1\<lparr>cooling_sessions :=
                                AList.update (hash_key server_id) ref (cooling_sessions st1)\<rparr>;
                     st3 = start_cooling_monitor server_id ref st2
                 in (cooling_started_response rt env message_data server_id cooling_info, st3)))
      | v \<Rightarrow> (cooling_create_error_response rt (se_uid env) (se_now_msg env) message_data
                (''Cooling period start failed: '' @ error_text (no_attribute v ''get'')) ''error'',
              st))"

text \<open>\<open>_handle_message\<close> of the cooling stage: the answer is sent to the topic.\<close>

definition cooling_handle_message ::
  "runtime \<Rightarrow> start_env \<Rightarrow> pydict \<Rightarrow> cooling_state \<Rightarrow> cooling_state" where
  "cooling_handle_message rt env message_data st =
     (if \<not> cooling_should_process_message message_data then st
      else (case cooling_process_message rt env message_data st of
              (result, st1) \<Rightarrow> if result \<noteq> [] then send_response result st1 else st1))"

subsection \<open>The power check\<close>

datatype power_on_reason = ManualPowerOn | WakeOnLan | ScheduledTask | HardwareEvent

fun reason_text :: "power_on_reason \<Rightarrow> string" where
  "reason_text ManualPowerOn = ''manual_power_on''"
| "reason_text WakeOnLan = ''wake_on_lan''"
| "reason_text ScheduledTask = ''scheduled_task''"
| "reason_text HardwareEvent = ''hardware_event''"

text \<open>
  The readings that one power check takes from its environment: the clock at
  \<open>last_check\<close>; the draw \<open>random.random() < 0.05\<close> of the simulated power query, the
  clock at its \<open>check_timestamp\<close>, and for a powered-on server the clock, the minutes
  and the reason of the boot; then the uuid of the message built for the outcome and the
  clock at its timestamp, at the violation time, at the elapsed hours and at the
  remaining hours.
\<close>

record check_env =
  ce_now_check :: int
  ce_rnd_on :: bool
  ce_now_status :: int
  ce_now_boot :: int
  ce_boot_minutes :: int
  ce_reason :: power_on_reason
  ce_uid :: string
  ce_now_msg :: int
  ce_now_violation :: int
  ce_now_elapsed :: int
  ce_now_remaining :: int

definition minute :: int where
  "minute = 60000000"

text \<open>
  \<open>_check_server_power_status\<close>. Building the answer reads
  \<open>server_details.get('ip_address', 'unknown')\<close>; when the details are not a dict this
  raises, and the handler of the function answers that the server is taken to be off.
\<close>

definition check_server_power_status :: "runtime \<Rightarrow> check_env \<Rightarrow> json \<Rightarrow> json \<Rightarrow> pydict" where
  "check_server_power_status rt env server_id server_details =
     (let is_powered_on = ce_rnd_on env
      in case obj_get server_details ''ip_address'' (JStr ''unknown'') of
           Inl e \<Rightarrow>
             [(''is_powered_on'', JBool False),
              (''power_state'', JStr ''unknown''),
              (''check_method'', JStr ''IPMI''),
              (''error'', JStr (error_text e)),
              (''check_timestamp'', JStr (isoformat rt (ce_now_status env)))]
         | Inr server_ip \<Rightarrow>
             (let power_info =
                    [(''is_powered_on'', JBool is_powered_on),
                     (''power_state'', JStr (if is_powered_on then ''on'' else ''off'')),
                     (''check_method'', JStr ''IPMI''),
                     (''check_timestamp'', JStr (isoformat rt (ce_now_status env))),
                     (''response_time_ms'', JInt 1500),
                     (''server_ip'', server_ip)]
              in if is_powered_on then
                   power_info @
                     [(''boot_time'',
                         JStr (isoformat rt (ce_now_boot env - ce_boot_minutes env * minute))),
                      (''power_on_reason'', JStr (reason_text (ce_reason env)))]
                 else power_info))"

definition violation_response ::
  "runtime \<Rightarrow> check_env \<Rightarrow> json \<Rightarrow> cooling_info \<Rightarrow> pydict \<Rightarrow> pydict" where
  "violation_response rt env server_id cooling_info power_status =
     [(''id'', JStr (ce_uid env)),
      (''original_request_id'',
         dict_get (ci_original_message cooling_info) ''original_request_id''
           (dict_get (ci_original_message cooling_info) ''id'' JNull)),
      (''action'', JStr ''cooling_violation_error''),
      (''status'', JStr ''violation_error''),
      (''processor'', JStr ''ServerCoolingPeriodProcessor''),
      (''processor_id'', JStr (processor_id rt)),
      (''timestamp'', JStr (isoformat rt (ce_now_msg env))),
      (''data'', JObj
         [(''server_id'', server_id),
          (''server_details'', ci_server_details cooling_info),
          (''violation_details'', JObj
             [(''power_status'', JObj power_status),
              (''violation_time'', JStr (isoformat rt (ce_now_violation env))),
              (''cooling_elapsed_hours'',
                 JFloat (of_int (ce_now_elapsed env - ci_cooling_start cooling_info) / of_int hour)),
              (''remaining_hours'',
                 JFloat (of_int (ci_cooling_end cooling_info - ce_now_remaining env) / of_int hour)),
              (''check_number'', JInt (ci_check_count cooling_info))]),
          (''cooling_period_info'', JObj
             [(''cooling_start'', JStr (isoformat rt (ci_cooling_start cooling_info))),
              (''cooling_end'', JStr (isoformat rt (ci_cooling_end cooling_info))),
              (''total_checks_performed'', JInt (ci_check_count cooling_info))])]),
      (''error'',
         JStr (''Server '' @ py_str rt server_id @ '' powered on during mandatory cooling period'')),
      (''message'',
         JStr (''CRITICAL: Server '' @ py_str rt server_id
               @ '' violated cooling period by powering on. Demise process terminated.'')),
      (''pipeline_step'', JStr ''2.5''),
      (''pipeline_complete'', JBool True),
      (''violation'', JBool True)]"

text \<open>\<open>_handle_cooling_violation\<close>: the message is sent, then the session is removed.\<close>

definition handle_cooling_violation ::
  "runtime \<Rightarrow> check_env \<Rightarrow> json \<Rightarrow> nat \<Rightarrow> pydict \<Rightarrow> cooling_state \<Rightarrow> cooling_state" where
  "handle_cooling_violation rt env server_id ref power_status st =
     (let error_response = violation_response rt env server_id (infos st ref) power_status;
          st1 = send_response error_response st
      in remove_session server_id st1)"

text \<open>\<open>round(x, 1)\<close>, on the exact value: to the nearest tenth, a tie to the even one.\<close>

definition py_round1 :: "rat \<Rightarrow> rat" where
  "py_round1 x =
     (let q = x * 10; f = \<lfloor>q\<rfloor>; d = q - of_int f
      in of_int (if d < 1 / 2 then f else if 1 / 2 < d then f + 1
                 else if even f then f else f + 1) / 10)"

definition status_update_response ::
  "runtime \<Rightarrow> check_env \<Rightarrow> json \<Rightarrow> cooling_info \<Rightarrow> pydict \<Rightarrow> pydict" where
  "status_update_response rt env server_id cooling_info power_status =
     (let remaining_hours = of_int (ci_cooling_end cooling_info - ce_now_remaining env) / of_int hour
      in [(''id'', JStr (ce_uid env)),
          (''original_request_id'',
             dict_get (ci_original_message cooling_info) ''original_request_id''
               (dict_get (ci_original_message cooling_info) ''id'' JNull)),
          (''action'', JStr ''cooling_status_update''),
          (''status'', JStr ''monitoring''),
          (''processor'', JStr ''ServerCoolingPeriodProcessor''),
          (''processor_id'', JStr (processor_id rt)),
          (''timestamp'', JStr (isoformat rt (ce_now_msg env))),
          (''data'', JObj
             [(''server_id'', server_id),
              (''cooling_status'', JObj
                 [(''remaining_hours'', JFloat (py_round1 remaining_hours)),
                  (''check_number'', JInt (ci_check_count cooling_info)),
                  (''power_status'', JObj power_status),
                  (''next_check_in_hours'', JInt check_interval_hours)])]),
          (''message'',
             JStr (''Server '' @ py_str rt server_id @ '' cooling check #''
                   @ str_int (ci_check_count cooling_info) @ '': OFF - ''
                   @ py_repr rt (JFloat (py_round1 remaining_hours)) @ ''h remaining'')),
          (''pipeline_step'', JStr ''2.5'')])"

text \<open>
  \<open>_send_status_update\<close> builds the status message (above, without the check-mark sign
  of its text) and only logs: the call that would send it is commented out in the source.
\<close>

definition send_status_update ::
  "runtime \<Rightarrow> check_env \<Rightarrow> json \<Rightarrow> nat \<Rightarrow> pydict \<Rightarrow> cooling_state \<Rightarrow> cooling_state" where
  "send_status_update rt env server_id ref power_status st =
     (let status_response = status_update_response rt env server_id (infos st ref) power_status
      in st)"

text \<open>
  \<open>_perform_power_check\<close>: the check is counted and stamped in the session first, then
  the power status is queried.
\<close>

definition perform_power_check ::
  "runtime \<Rightarrow> check_env \<Rightarrow> json \<Rightarrow> nat \<Rightarrow> cooling_state \<Rightarrow> cooling_state" where
  "perform_power_check rt env server_id ref st =
     (let cooling_info = (infos st ref)
            \<lparr>ci_check_count := ci_check_count (infos st ref) + 1,
             ci_last_check := Some (ce_now_check env)\<rparr>;
          st1 = st\<lparr>infos := (infos st)(ref := cooling_info)\<rparr>;
          power_status = check_server_power_status rt env server_id (ci_server_details cooling_info)
      in if truthy (dict_get power_status ''is_powered_on'' JNull)
         then handle_cooling_violation rt env server_id ref power_status st1
         else send_status_update rt env server_id ref power_status st1)"

subsection \<open>Completion and failure of the monitor\<close>

record complete_env =
  co_uid :: string
  co_now_msg :: int
  co_now_actual :: int

definition completion_response ::
  "runtime \<Rightarrow> complete_env \<Rightarrow> json \<Rightarrow> cooling_info \<Rightarrow> json \<Rightarrow> pydict" where
  "completion_response rt env server_id cooling_info original_request =
     [(''id'', JStr (co_uid env)),
      (''original_request_id'',
         dict_get (ci_original_message cooling_info) ''original_request_id''
           (dict_get (ci_original_message cooling_info) ''id'' JNull)),
      (''action'', JStr ''demise_server''),
      (''status'', JStr ''pending''),
      (''processor'', JStr ''ServerCoolingPeriodProcessor''),
      (''processor_id'', JStr (processor_id rt)),
      (''timestamp'', JStr (isoformat rt (co_now_msg env))),
      (''data'', JObj
         [(''server_id'', server_id),
          (''server_details'', ci_server_details cooling_info),
          (''cooling_completion'', JObj
             [(''cooling_start'', JStr (isoformat rt (ci_cooling_start cooling_info))),
              (''cooling_end'', JStr (isoformat rt (ci_cooling_end cooling_info))),
              (''actual_completion'', JStr (isoformat rt (co_now_actual env))),
              (''total_checks_performed'', JInt (ci_check_count cooling_info)),
              (''cooling_duration_hours'', JInt cooling_period_hours)]),
          (''poweroff_timestamp'', ci_poweroff_timestamp cooling_info),
          (''original_request'', original_request)]),
      (''message'',
         JStr (''Server '' @ py_str rt server_id
               @ '' completed 48-hour cooling period successfully. Proceeding to demise.'')),
      (''pipeline_step'', JStr ''2.5''),
      (''next_step'', JStr ''demise_server'')]"

text \<open>
  \<open>_handle_cooling_complete\<close>. Reading the original request out of the stored message
  raises when its payload is not a dict; then nothing is sent or removed here, and the
  exception reaches the handler of the monitor.
\<close>

definition handle_cooling_complete ::
  "runtime \<Rightarrow> complete_env \<Rightarrow> json \<Rightarrow> nat \<Rightarrow> cooling_state \<Rightarrow> py_error + cooling_state" where
  "handle_cooling_complete rt env server_id ref st =
     (let cooling_info = infos st ref
      in case obj_get (dict_get (ci_original_message cooling_info) ''data'' (JObj []))
                ''original_request'' (JObj []) of
           Inl e \<Rightarrow> Inl e
         | Inr original_request \<Rightarrow>
             (let completion_response =
                    completion_response rt env server_id cooling_info original_request;
                  st1 = send_response completion_response st
              in Inr (remove_session server_id st1)))"

record error_env =
  er_uid :: string
  er_now_msg :: int
  er_now_error :: int

definition cooling_error_response ::
  "runtime \<Rightarrow> error_env \<Rightarrow> json \<Rightarrow> cooling_info \<Rightarrow> string \<Rightarrow> pydict" where
  "cooling_error_response rt env server_id cooling_info error_msg =
     [(''id'', JStr (er_uid env)),
      (''original_request_id'',
         dict_get (ci_original_message cooling_info) ''original_request_id''
           (dict_get (ci_original_message cooling_info) ''id'' JNull)),
      (''action'', JStr ''cooling_error''),
      (''status'', JStr ''error''),
      (''processor'', JStr ''ServerCoolingPeriodProcessor''),
      (''processor_id'', JStr (processor_id rt)),
      (''timestamp'', JStr (isoformat rt (er_now_msg env))),
      (''data'', JObj
         [(''server_id'', server_id),
          (''server_details'', ci_server_details cooling_info),
          (''error_details'', JObj
             [(''error_message'', JStr error_msg),
              (''error_time'', JStr (isoformat rt (er_now_error env))),
              (''checks_completed'', JInt (ci_check_count cooling_info)),
              (''last_successful_check'', JNull)])]),
      (''error'', JStr error_msg),
      (''message'',
         JStr (''Cooling period monitoring failed for server '' @ py_str rt server_id @ '': ''
               @ error_msg)),
      (''pipeline_step'', JStr ''2.5''),
      (''pipeline_complete'', JBool True)]"

text \<open>
  \<open>_handle_cooling_error\<close>. The message carries \<open>last_check\<close> as it is stored: \<open>None\<close>
  before the first check, a \<open>datetime\<close> afterwards. The producer serialises with
  \<open>json.dumps\<close>, which raises on a \<open>datetime\<close>; \<open>_send_response\<close> logs that and sends
  nothing. The session is removed in both cases.
\<close>

definition handle_cooling_error ::
  "runtime \<Rightarrow> error_env \<Rightarrow> json \<Rightarrow> nat \<Rightarrow> string \<Rightarrow> cooling_state \<Rightarrow> cooling_state" where
  "handle_cooling_error rt env server_id ref error_msg st =
     (let cooling_info = infos st ref;
          st1 = (case ci_last_check cooling_info of
                   None \<Rightarrow>
                     send_response (cooling_error_response rt env server_id cooling_info error_msg) st
                 | Some t \<Rightarrow> st)
      in remove_session server_id st1)"

subsection \<open>The monitoring thread\<close>

text \<open>
  One turn of the loop of \<open>monitor_cooling_period\<close> reads the clock (\<open>tk_now\<close>), and
  then either completes the session or performs a power check and sleeps. \<open>tk_fault\<close>
  is the text of an exception that escapes the loop body after the check (none in the
  usual case); the handlers take their readings from \<open>tk_complete\<close> and \<open>tk_error\<close>.
\<close>

record tick =
  tk_now :: int
  tk_check :: check_env
  tk_complete :: complete_env
  tk_fault :: "string option"
  tk_error :: error_env

text \<open>The \<open>finally\<close> clause of the thread.\<close>

definition thread_cleanup :: "json \<Rightarrow> cooling_state \<Rightarrow> cooling_state" where
  "thread_cleanup server_id st =
     (if hash_key server_id \<in> fst ` set (cooling_threads st)
      then st\<lparr>cooling_threads := AList.delete (hash_key server_id) (cooling_threads st)\<rparr>
      else st)"

text \<open>
  The thread, run over the turns that the environment grants it. The result tells
  whether the thread has ended (\<open>True\<close>) or is still asleep after the last turn. The
  loop is left only on completion or by an exception: after a violation the thread goes
  on to sleep and to check again.
\<close>

fun monitor_cooling_period ::
  "runtime \<Rightarrow> json \<Rightarrow> nat \<Rightarrow> tick list \<Rightarrow> cooling_state \<Rightarrow> bool \<times> cooling_state" where
  "monitor_cooling_period rt server_id ref [] st = (False, st)"
| "monitor_cooling_period rt server_id ref (tk # tks) st =
     (if ci_cooling_end (infos st ref) \<le> tk_now tk then
        (case handle_cooling_complete rt (tk_complete tk) server_id ref st of
           Inr st1 \<Rightarrow> (True, thread_cleanup server_id st1)
         | Inl e \<Rightarrow>
             (True, thread_cleanup server_id
                      (handle_cooling_error rt (tk_error tk) server_id ref (error_text e) st)))
      else
        (let st1 = perform_power_check rt (tk_check tk) server_id ref st
         in case tk_fault tk of
              Some e \<Rightarrow>
                (True, thread_cleanup server_id
                         (handle_cooling_error rt (tk_error tk) server_id ref e st1))
            | None \<Rightarrow> monitor_cooling_period rt server_id ref tks st1))"

section \<open>Reading payloads, and the messages of a sample run\<close>

text \<open>A field of the data payload of a message; \<open>None\<close> when the payload has no such field.\<close>

definition data_field :: "pydict \<Rightarrow> string \<Rightarrow> json option" where
  "data_field message_data k =
     (case dict_get message_data ''data'' (JObj []) of JObj d \<Rightarrow> map_of d k | _ \<Rightarrow> None)"

text \<open>The data payload of a message (a dict, or absent) has no \<open>server_id\<close>.\<close>

definition payload_lacks_server_id :: "pydict \<Rightarrow> bool" where
  "payload_lacks_server_id message_data =
     (case dict_get message_data ''data'' (JObj []) of
        JObj d \<Rightarrow> map_of d ''server_id'' = None
      | _ \<Rightarrow> False)"

definition sample_runtime :: runtime where
  "sample_runtime = \<lparr>isoformat = str_int, py_repr = (\<lambda>v. ''...''), processor_id = ''proc-1''\<rparr>"

text \<open>The request that the REST front end puts on the topic for a server id.\<close>

definition check_request :: "string \<Rightarrow> pydict" where
  "check_request sid =
     [(''id'', JStr ''req-1''),
      (''action'', JStr ''check_server''),
      (''status'', JStr ''pending''),
      (''processor'', JStr ''API''),
      (''data'', JObj [(''server_id'', JStr sid), (''reason'', JStr ''end of life'')]),
      (''pipeline_step'', JInt 0),
      (''next_step'', JStr ''check_server'')]"

text \<open>The answers of the check stage and of the power-off stage for server 150.\<close>

definition poweroff_request :: pydict where
  "poweroff_request = check_process_message sample_runtime ''uuid-1'' 1000 (check_request ''150'')"

definition demise_request :: pydict where
  "demise_request = poweroff_process_message sample_runtime ''uuid-2'' 2000 2001 True poweroff_request"

text \<open>A message for the cooling stage whose payload has no server id.\<close>

definition request_without_id :: pydict where
  "request_without_id =
     [(''id'', JStr ''req-2''),
      (''action'', JStr ''start_cooling_period''),
      (''status'', JStr ''pending''),
      (''data'', JObj [(''reason'', JStr ''end of life'')])]"

text \<open>
  The cooling processor as it is after its construction: no session, no thread, nothing
  sent. \<open>blank_info\<close> fills the store cells that are not yet in use.
\<close>

definition blank_info :: cooling_info where
  "blank_info =
     \<lparr>ci_server_id = JNull, ci_server_details = JNull, ci_poweroff_timestamp = JNull,
      ci_cooling_start = 0, ci_cooling_end = 0, ci_original_message = [],
      ci_check_count = 0, ci_last_check = None, ci_status = []\<rparr>"

definition empty_cooling_state :: cooling_state where
  "empty_cooling_state =
     \<lparr>infos = (\<lambda>r. blank_info), next_ref = 0, cooling_sessions = [], cooling_threads = [],
      monitors = [], topic = []\<rparr>"

definition sample_start_env :: start_env where
  "sample_start_env =
     \<lparr>se_uid = ''uuid-3'', se_now_default = 3000, se_now_start = 3001, se_now_end = 3002,
      se_now_msg = 3003\<rparr>"

text \<open>Whether a value is a dict, and a field of a dict that is itself a field.\<close>

fun is_dict :: "json \<Rightarrow> bool" where
  "is_dict (JObj d) = True"
| "is_dict v = False"

definition sub_field :: "json option \<Rightarrow> string \<Rightarrow> json option" where
  "sub_field v k = (case v of Some (JObj d) \<Rightarrow> map_of d k | _ \<Rightarrow> None)"

text \<open>
  A request to start the cooling period of server 150, carrying the payload that the
  power-off stage emitted, and the state of the processor once it has accepted it.
\<close>

definition cooling_request :: pydict where
  "cooling_request =
     [(''id'', JStr ''uuid-2''),
      (''original_request_id'', JStr ''req-1''),
      (''action'', JStr ''start_cooling_period''),
      (''status'', JStr ''pending''),
      (''data'', dict_get demise_request ''data'' (JObj []))]"

definition monitoring_state :: cooling_state where
  "monitoring_state =
     snd (cooling_process_message sample_runtime sample_start_env cooling_request empty_cooling_state)"

text \<open>The same for a request whose \<open>server_details\<close> is a plain string.\<close>

definition cooling_request_flat :: pydict where
  "cooling_request_flat =
     [(''id'', JStr ''req-3''),
      (''action'', JStr ''start_cooling_period''),
      (''status'', JStr ''pending''),
      (''data'', JObj [(''server_id'', JStr ''150''), (''server_details'', JStr ''rack 7'')])]"

definition flat_state :: cooling_state where
  "flat_state =
     snd (cooling_process_message sample_runtime sample_start_env cooling_request_flat
            empty_cooling_state)"

text \<open>The readings of one power check; \<open>on\<close> is the outcome of the simulated query.\<close>

definition sample_check_env :: "bool \<Rightarrow> check_env" where
  "sample_check_env on =
     \<lparr>ce_now_check = 4000, ce_rnd_on = on, ce_now_status = 4001, ce_now_boot = 4002,
      ce_boot_minutes = 30, ce_reason = WakeOnLan, ce_uid = ''uuid-4'', ce_now_msg = 4003,
      ce_now_violation = 4004, ce_now_elapsed = 4005, ce_now_remaining = 4006\<rparr>"

text \<open>The readings of the handlers, and a turn of the monitoring loop at a given time.\<close>

definition sample_complete_env :: complete_env where
  "sample_complete_env = \<lparr>co_uid = ''uuid-5'', co_now_msg = 5000, co_now_actual = 5001\<rparr>"

definition sample_error_env :: error_env where
  "sample_error_env = \<lparr>er_uid = ''uuid-6'', er_now_msg = 6000, er_now_error = 6001\<rparr>"

definition sample_tick :: "int \<Rightarrow> bool \<Rightarrow> tick" where
  "sample_tick t on =
     \<lparr>tk_now = t, tk_check = sample_check_env on, tk_complete = sample_complete_env,
      tk_fault = None, tk_error = sample_error_env\<rparr>"

text \<open>
  A turn of the monitoring loop that passes without an end of the thread: the clock
  read at the head of the loop is before the end of the cooling period, and no exception
  escapes the loop body.
\<close>

definition quiet_tick :: "int \<Rightarrow> tick \<Rightarrow> bool" where
  "quiet_tick cooling_end tk = (tk_now tk < cooling_end \<and> tk_fault tk = None)"

text \<open>
  The sample session goes on. At its first check the server is found on
  (\<open>violated_state\<close>); then a second request for the same server arrives
  (\<open>restarted_state\<close>); then the first thread reaches the end of its cooling period
  (\<open>overrun_state\<close>). \<open>faulty_tick\<close> is a turn of the loop in which an exception
  escapes after the check.
\<close>

definition violated_state :: cooling_state where
  "violated_state =
     snd (monitor_cooling_period sample_runtime (JStr ''150'') 0
            [sample_tick 7200000000 True] monitoring_state)"

definition second_start_env :: start_env where
  "second_start_env =
     \<lparr>se_uid = ''uuid-7'', se_now_default = 7300000000, se_now_start = 7300000001,
      se_now_end = 7300000002, se_now_msg = 7300000003\<rparr>"

definition restarted_state :: cooling_state where
  "restarted_state =
     snd (cooling_process_message sample_runtime second_start_env cooling_request violated_state)"

definition overrun_state :: cooling_state where
  "overrun_state =
     snd (monitor_cooling_period sample_runtime (JStr ''150'') 0
            [sample_tick 172800004000 False] restarted_state)"

definition faulty_tick :: tick where
  "faulty_tick = (sample_tick 7200000000 False)\<lparr>tk_fault := Some ''interrupted''\<rparr>"

section \<open>Routing uniqueness\<close>

text \<open>
  Claim C1. Whatever the action and status of a message are, at most one of the four
  stage predicates (check, power off, cooling, demise) accepts it.
\<close>

theorem routing_unique:
  "length (filter (\<lambda>p. p m) stage_predicates) \<le> 1"
  by (simp add: stage_predicates_def check_should_process_message_def
      poweroff_should_process_message_def cooling_should_process_message_def
      demise_should_process_message_def Let_def)

section \<open>The sample run\<close>

lemmas int_parse_defs =
  py_int_def py_int_str_def int_space_def parse_unsigned_def digit_val_def Let_def

lemma portal_150: "check_server_in_portal (JStr ''150'') = Inr True"
  by (simp add: check_server_in_portal_def int_parse_defs)



lemma poweroff_request_eq:
  "poweroff_request =
     check_success_response sample_runtime ''uuid-1'' 1000 (check_request ''150'') (JStr ''150'')"
  by (simp add: poweroff_request_def check_process_message_def check_request_def dict_get_def
      obj_get_def portal_150)

lemma poweroff_request_data:
  "dict_get poweroff_request ''data'' (JObj []) = JObj
     [(''server_id'', JStr ''150''),
      (''server_details'', JObj
         [(''hostname'', JStr ''server-150''),
          (''ip_address'', JStr ''192.168.1.150''),
          (''status'', JStr ''active''),
          (''location'', JStr ''datacenter-1'')]),
      (''check_result'', JStr ''server_found''),
      (''original_request'',
         JObj [(''server_id'', JStr ''150''), (''reason'', JStr ''end of life'')])]"
  by (simp add: poweroff_request_eq check_success_response_def dict_get_def check_request_def
      py_str_def)

lemma poweroff_request_route: "poweroff_should_process_message poweroff_request"
  by (simp add: poweroff_request_eq check_success_response_def dict_get_def
      poweroff_should_process_message_def)

lemma poweroff_sample_result:
  "poweroff_process_message rt uid now now2 True poweroff_request =
     poweroff_success_response rt uid now now2 poweroff_request
       [(''server_id'', JStr ''150''),
        (''server_details'', JObj
           [(''hostname'', JStr ''server-150''),
            (''ip_address'', JStr ''192.168.1.150''),
            (''status'', JStr ''active''),
            (''location'', JStr ''datacenter-1'')]),
        (''check_result'', JStr ''server_found''),
        (''original_request'',
           JObj [(''server_id'', JStr ''150''), (''reason'', JStr ''end of life'')])]
       (JStr ''150'')
       (JObj
          [(''hostname'', JStr ''server-150''),
           (''ip_address'', JStr ''192.168.1.150''),
           (''status'', JStr ''active''),
           (''location'', JStr ''datacenter-1'')])
       (execute_server_poweroff True (JStr ''150'')
          (JObj
             [(''hostname'', JStr ''server-150''),
              (''ip_address'', JStr ''192.168.1.150''),
              (''status'', JStr ''active''),
              (''location'', JStr ''datacenter-1'')]))"
  unfolding poweroff_process_message_def poweroff_request_data
  by (simp add: Let_def dict_get_def execute_server_poweroff_def obj_get_def)

section \<open>The portal rule of the check stage\<close>


section \<open>What the power-off stage emits\<close>

text \<open>
  Claim C3 says that a successful power-off is followed by a message with the action
  \<open>start_cooling_period\<close>. On the answer of the check stage for server 150, with
  a successful power-off, the stage emits exactly one message; its action is
  \<open>demise_server\<close> with status \<open>pending\<close>, which the demise stage accepts and the
  cooling stage does not.
\<close>

theorem poweroff_successor_action:
  "handle_message poweroff_should_process_message
      (poweroff_process_message rt uid now now2 True) [] poweroff_request
     = [poweroff_process_message rt uid now now2 True poweroff_request]
   \<and> dict_get (poweroff_process_message rt uid now now2 True poweroff_request) ''action'' JNull
       = JStr ''demise_server''
   \<and> dict_get (poweroff_process_message rt uid now now2 True poweroff_request) ''status'' JNull
       = JStr ''pending''
   \<and> cooling_should_process_message
        (poweroff_process_message rt uid now now2 True poweroff_request) = False
   \<and> demise_should_process_message
        (poweroff_process_message rt uid now now2 True poweroff_request) = True"
  by (simp add: poweroff_sample_result handle_message_def poweroff_request_route
      poweroff_success_response_def dict_get_def cooling_should_process_message_def
      demise_should_process_message_def)

section \<open>What the stages carry forward\<close>





lemma demise_request_data:
  "dict_get demise_request ''data'' (JObj []) = JObj
     [(''server_id'', JStr ''150''),
      (''server_details'', JObj
         [(''hostname'', JStr ''server-150''),
          (''ip_address'', JStr ''192.168.1.150''),
          (''status'', JStr ''active''),
          (''location'', JStr ''datacenter-1'')]),
      (''poweroff_result'', JObj
         [(''success'', JBool True),
          (''power_status'', JStr ''off''),
          (''poweroff_method'', JStr ''IPMI''),
          (''execution_time'', JStr ''4.5s''),
          (''verification'', JStr ''confirmed_off'')]),
      (''poweroff_timestamp'', JStr (isoformat sample_runtime 2001)),
      (''original_request'',
         JObj [(''server_id'', JStr ''150''), (''reason'', JStr ''end of life'')])]"
  unfolding demise_request_def poweroff_sample_result poweroff_success_response_def
  by (simp add: dict_get_def execute_server_poweroff_def obj_get_def)





















section \<open>Validation errors\<close>

lemma lacks_data_cases:
  assumes "payload_lacks_server_id m"
  obtains d where "dict_get m ''data'' (JObj []) = JObj d" "dict_get d ''server_id'' JNull = JNull"
  using assms
  by (cases "dict_get m ''data'' (JObj [])") (auto simp add: payload_lacks_server_id_def dict_get_def)

text \<open>
  Claim C8. When the data payload of a message has no \<open>server_id\<close>, each of the four
  stages answers at once with its error message for the missing id: the message is
  terminal (\<open>pipeline_complete\<close> is true), explains the failure in its \<open>message\<close> field
  and carries the original payload unmodified. The answer does not depend on the draw
  of the simulated external action or on any later clock reading, and the cooling stage
  leaves its state as it was: no session, no thread.
\<close>

theorem validation_errors:
  assumes "payload_lacks_server_id m"
  shows
    "check_process_message rt uid now m
       = check_create_error_response rt uid now m ''Server ID is required'' ''error''
   \<and> poweroff_process_message rt uid now now2 rnd_ok m
       = poweroff_create_error_response rt uid now m ''Server ID is required'' ''error''
   \<and> demise_process_message rt uid now now2 now3 epoch rnd_ok elapsed m
       = demise_create_error_response rt uid now m ''Server ID is required'' ''error''
   \<and> cooling_process_message rt env m st
       = (cooling_create_error_response rt (se_uid env) (se_now_msg env) m
            ''Server ID is required for cooling period'' ''error'', st)
   \<and> dict_get (check_process_message rt uid now m) ''pipeline_complete'' JNull = JBool True
   \<and> dict_get (check_process_message rt uid now m) ''data'' JNull = dict_get m ''data'' (JObj [])
   \<and> dict_get (check_process_message rt uid now m) ''message'' JNull
       = JStr ''Pipeline terminated: Server ID is required''
   \<and> dict_get (poweroff_process_message rt uid now now2 rnd_ok m) ''pipeline_complete'' JNull = JBool True
   \<and> dict_get (poweroff_process_message rt uid now now2 rnd_ok m) ''data'' JNull
       = dict_get m ''data'' (JObj [])
   \<and> dict_get (poweroff_process_message rt uid now now2 rnd_ok m) ''message'' JNull
       = JStr ''Pipeline terminated: Server ID is required''
   \<and> dict_get (demise_process_message rt uid now now2 now3 epoch rnd_ok elapsed m)
        ''pipeline_complete'' JNull = JBool True
   \<and> dict_get (demise_process_message rt uid now now2 now3 epoch rnd_ok elapsed m) ''data'' JNull
       = dict_get m ''data'' (JObj [])
   \<and> dict_get (demise_process_message rt uid now now2 now3 epoch rnd_ok elapsed m) ''message'' JNull
       = JStr ''Pipeline terminated: Server ID is required''
   \<and> dict_get (fst (cooling_process_message rt env m st)) ''pipeline_complete'' JNull = JBool True
   \<and> dict_get (fst (cooling_process_message rt env m st)) ''data'' JNull = dict_get m ''data'' (JObj [])
   \<and> dict_get (fst (cooling_process_message rt env m st)) ''message'' JNull
       = JStr ''Cooling period failed: Server ID is required for cooling period''
   \<and> snd (cooling_process_message rt env m st) = st"
proof -
  from assms obtain d where d: "dict_get m ''data'' (JObj []) = JObj d"
    "dict_get d ''server_id'' JNull = JNull"
    by (rule lacks_data_cases)
  have c: "check_process_message rt uid now m
       = check_create_error_response rt uid now m ''Server ID is required'' ''error''"
    unfolding check_process_message_def d(1) by (simp add: obj_get_def d(2))
  have p: "poweroff_process_message rt uid now now2 rnd_ok m
       = poweroff_create_error_response rt uid now m ''Server ID is required'' ''error''"
    unfolding poweroff_process_message_def d(1) by (simp add: d(2))
  have e: "demise_process_message rt uid now now2 now3 epoch rnd_ok elapsed m
       = demise_create_error_response rt uid now m ''Server ID is required'' ''error''"
    unfolding demise_process_message_def d(1) by (simp add: d(2))
  have k: "cooling_process_message rt env m st
       = (cooling_create_error_response rt (se_uid env) (se_now_msg env) m
            ''Server ID is required for cooling period'' ''error'', st)"
    unfolding cooling_process_message_def d(1) by (simp add: d(2))
  have fc: "dict_get (check_create_error_response rt uid now m e f) ''pipeline_complete'' JNull = JBool True"
    "dict_get (check_create_error_response rt uid now m e f) ''data'' JNull = dict_get m ''data'' (JObj [])"
    "dict_get (check_create_error_response rt uid now m e f) ''message'' JNull = JStr (''Pipeline terminated: '' @ e)"
    for e f
    by (simp_all add: check_create_error_response_def dict_get_def)
  have fp: "dict_get (poweroff_create_error_response rt uid now m e f) ''pipeline_complete'' JNull = JBool True"
    "dict_get (poweroff_create_error_response rt uid now m e f) ''data'' JNull = dict_get m ''data'' (JObj [])"
    "dict_get (poweroff_create_error_response rt uid now m e f) ''message'' JNull = JStr (''Pipeline terminated: '' @ e)"
    for e f
    by (simp_all add: poweroff_create_error_response_def dict_get_def)
  have fd: "dict_get (demise_create_error_response rt uid now m e f) ''pipeline_complete'' JNull = JBool True"
    "dict_get (demise_create_error_response rt uid now m e f) ''data'' JNull = dict_get m ''data'' (JObj [])"
    "dict_get (demise_create_error_response rt uid now m e f) ''message'' JNull = JStr (''Pipeline terminated: '' @ e)"
    for e f
    by (simp_all add: demise_create_error_response_def dict_get_def)
  have fk: "dict_get (cooling_create_error_response rt u n m e f) ''pipeline_complete'' JNull = JBool True"
    "dict_get (cooling_create_error_response rt u n m e f) ''data'' JNull = dict_get m ''data'' (JObj [])"
    "dict_get (cooling_create_error_response rt u n m e f) ''message'' JNull = JStr (''Cooling period failed: '' @ e)"
    for u n e f
    by (simp_all add: cooling_create_error_response_def dict_get_def)
  show ?thesis
    by (simp add: c p e k fc fp fd fk)
qed

theorem validation_errors_witness:
  "payload_lacks_server_id request_without_id
   \<and> cooling_should_process_message request_without_id
   \<and> dict_get (poweroff_process_message sample_runtime ''u'' 5 6 True request_without_id)
        ''pipeline_complete'' JNull = JBool True
   \<and> dict_get (fst (cooling_process_message sample_runtime sample_start_env request_without_id empty_cooling_state))
        ''data'' JNull = JObj [(''reason'', JStr ''end of life'')]
   \<and> snd (cooling_process_message sample_runtime sample_start_env request_without_id empty_cooling_state) = empty_cooling_state"
proof -
  have h: "payload_lacks_server_id request_without_id"
    by (simp add: payload_lacks_server_id_def request_without_id_def dict_get_def)
  have r: "cooling_should_process_message request_without_id"
    by (simp add: cooling_should_process_message_def request_without_id_def dict_get_def)
  have g: "dict_get request_without_id ''data'' (JObj []) = JObj [(''reason'', JStr ''end of life'')]"
    by (simp add: request_without_id_def dict_get_def)
  note v = validation_errors[OF h, where rt = sample_runtime and uid = "''u''" and now = 5
        and ?now2.0 = 6 and rnd_ok = True and env = sample_start_env and st = empty_cooling_state]
  from v have a: "dict_get (poweroff_process_message sample_runtime ''u'' 5 6 True request_without_id)
        ''pipeline_complete'' JNull = JBool True"
    by blast
  from v have b: "dict_get (fst (cooling_process_message sample_runtime sample_start_env request_without_id empty_cooling_state))
        ''data'' JNull = dict_get request_without_id ''data'' (JObj [])"
    by blast
  from v have c: "snd (cooling_process_message sample_runtime sample_start_env request_without_id empty_cooling_state) = empty_cooling_state"
    by blast
  from h r a b[unfolded g] c show ?thesis
    by blast
qed

section \<open>The cooling monitor: effects of its steps\<close>

lemma send_response_fields [simp]:
  "topic (send_response r st) = topic st @ [r]"
  "infos (send_response r st) = infos st"
  "next_ref (send_response r st) = next_ref st"
  "cooling_sessions (send_response r st) = cooling_sessions st"
  "cooling_threads (send_response r st) = cooling_threads st"
  "monitors (send_response r st) = monitors st"
  by (simp_all add: send_response_def)

lemma remove_session_fields [simp]:
  "topic (remove_session sid st) = topic st"
  "infos (remove_session sid st) = infos st"
  "next_ref (remove_session sid st) = next_ref st"
  "cooling_sessions (remove_session sid st) = AList.delete (hash_key sid) (cooling_sessions st)"
  "cooling_threads (remove_session sid st) = cooling_threads st"
  "monitors (remove_session sid st) = monitors st"
  by (simp_all add: remove_session_def)

lemma thread_cleanup_fields [simp]:
  "topic (thread_cleanup sid st) = topic st"
  "infos (thread_cleanup sid st) = infos st"
  "next_ref (thread_cleanup sid st) = next_ref st"
  "cooling_sessions (thread_cleanup sid st) = cooling_sessions st"
  "cooling_threads (thread_cleanup sid st) = AList.delete (hash_key sid) (cooling_threads st)"
  "monitors (thread_cleanup sid st) = monitors st"
  by (simp_all add: thread_cleanup_def)

lemma map_of_delete_same: "map_of (AList.delete k al) k = None"
  using delete_notin_dom[of k al] by (simp add: map_of_eq_None_iff)

lemma remove_session_twice: "remove_session sid (remove_session sid st) = remove_session sid st"
  by (simp add: remove_session_def delete_notin_dom)

lemma power_status_off:
  "\<not> is_dict details \<Longrightarrow>
     dict_get (check_server_power_status rt env sid details) ''is_powered_on'' JNull = JBool False"
  "\<not> is_dict details \<Longrightarrow>
     dict_get (check_server_power_status rt env sid details) ''power_state'' JNull = JStr ''unknown''"
  "is_dict details \<Longrightarrow>
     dict_get (check_server_power_status rt env sid details) ''is_powered_on'' JNull
       = JBool (ce_rnd_on env)"
  by (cases details; simp add: check_server_power_status_def obj_get_def dict_get_def Let_def)+

lemma perform_power_check_off:
  assumes "dict_get (check_server_power_status rt env sid (ci_server_details (infos st ref)))
             ''is_powered_on'' JNull = JBool False"
  shows "perform_power_check rt env sid ref st =
           st\<lparr>infos := (infos st)(ref := (infos st ref)
                 \<lparr>ci_check_count := ci_check_count (infos st ref) + 1,
                  ci_last_check := Some (ce_now_check env)\<rparr>)\<rparr>"
  using assms by (simp add: perform_power_check_def Let_def send_status_update_def)

lemma cooling_request_data:
  "dict_get cooling_request ''data'' (JObj []) = JObj
     [(''server_id'', JStr ''150''),
      (''server_details'', JObj
         [(''hostname'', JStr ''server-150''),
          (''ip_address'', JStr ''192.168.1.150''),
          (''status'', JStr ''active''),
          (''location'', JStr ''datacenter-1'')]),
      (''poweroff_result'', JObj
         [(''success'', JBool True),
          (''power_status'', JStr ''off''),
          (''poweroff_method'', JStr ''IPMI''),
          (''execution_time'', JStr ''4.5s''),
          (''verification'', JStr ''confirmed_off'')]),
      (''poweroff_timestamp'', JStr (isoformat sample_runtime 2001)),
      (''original_request'',
         JObj [(''server_id'', JStr ''150''), (''reason'', JStr ''end of life'')])]"
  by (simp add: cooling_request_def dict_get_def[of "_ # _"] demise_request_data)

lemma cooling_request_route: "cooling_should_process_message cooling_request"
  by (simp add: cooling_should_process_message_def cooling_request_def dict_get_def[of "_ # _"])

lemma monitoring_state_eq:
  "monitoring_state =
     \<lparr>infos = (\<lambda>r. blank_info)(0 :=
          \<lparr>ci_server_id = JStr ''150'',
           ci_server_details = JObj
             [(''hostname'', JStr ''server-150''),
              (''ip_address'', JStr ''192.168.1.150''),
              (''status'', JStr ''active''),
              (''location'', JStr ''datacenter-1'')],
           ci_poweroff_timestamp = JStr (isoformat sample_runtime 2001),
           ci_cooling_start = 3001,
           ci_cooling_end = 3002 + cooling_period_hours * hour,
           ci_original_message = cooling_request,
           ci_check_count = 0,
           ci_last_check = None,
           ci_status = ''monitoring''\<rparr>),
      next_ref = Suc 0,
      cooling_sessions = [(JStr ''150'', 0)],
      cooling_threads = [(JStr ''150'', 0)],
      monitors = [0],
      topic = []\<rparr>"
  unfolding monitoring_state_def cooling_process_message_def cooling_request_data
  by (simp add: Let_def dict_get_def empty_cooling_state_def sample_start_env_def
      start_cooling_monitor_def)

lemma flat_state_eq:
  "flat_state =
     \<lparr>infos = (\<lambda>r. blank_info)(0 :=
          \<lparr>ci_server_id = JStr ''150'',
           ci_server_details = JStr ''rack 7'',
           ci_poweroff_timestamp = JStr (isoformat sample_runtime 3000),
           ci_cooling_start = 3001,
           ci_cooling_end = 3002 + cooling_period_hours * hour,
           ci_original_message = cooling_request_flat,
           ci_check_count = 0,
           ci_last_check = None,
           ci_status = ''monitoring''\<rparr>),
      next_ref = Suc 0,
      cooling_sessions = [(JStr ''150'', 0)],
      cooling_threads = [(JStr ''150'', 0)],
      monitors = [0],
      topic = []\<rparr>"
proof -
  have d: "dict_get cooling_request_flat ''data'' (JObj []) =
      JObj [(''server_id'', JStr ''150''), (''server_details'', JStr ''rack 7'')]"
    by (simp add: cooling_request_flat_def dict_get_def)
  show ?thesis
    unfolding flat_state_def cooling_process_message_def d
    by (simp add: Let_def dict_get_def empty_cooling_state_def sample_start_env_def
        start_cooling_monitor_def)
qed

section \<open>Power checks that find the server off\<close>

text \<open>
  Claim C10. When the power query of a check answers that the server is off, the check
  sends nothing: the topic, the session map, the thread map and the list of threads are
  as before, and the only change of the state is that the session's check count is one
  higher and its last check is stamped. This includes the answer given when the query
  raises (the stored server details are not a dict): it says off, with power state
  unknown, whatever the draw of the simulated query is.
\<close>

theorem suppressed_status_updates:
  "(dict_get (check_server_power_status rt env sid (ci_server_details (infos st ref)))
       ''is_powered_on'' JNull = JBool False \<longrightarrow>
      perform_power_check rt env sid ref st =
        st\<lparr>infos := (infos st)(ref := (infos st ref)
              \<lparr>ci_check_count := ci_check_count (infos st ref) + 1,
               ci_last_check := Some (ce_now_check env)\<rparr>)\<rparr>
    \<and> topic (perform_power_check rt env sid ref st) = topic st
    \<and> cooling_sessions (perform_power_check rt env sid ref st) = cooling_sessions st
    \<and> cooling_threads (perform_power_check rt env sid ref st) = cooling_threads st
    \<and> monitors (perform_power_check rt env sid ref st) = monitors st)
 \<and> (is_dict (ci_server_details (infos st ref)) = False \<longrightarrow>
      dict_get (check_server_power_status rt env sid (ci_server_details (infos st ref)))
        ''is_powered_on'' JNull = JBool False
    \<and> dict_get (check_server_power_status rt env sid (ci_server_details (infos st ref)))
        ''power_state'' JNull = JStr ''unknown''
    \<and> topic (perform_power_check rt env sid ref st) = topic st)"
proof (intro conjI impI)
  assume off: "dict_get (check_server_power_status rt env sid (ci_server_details (infos st ref)))
       ''is_powered_on'' JNull = JBool False"
  note eq = perform_power_check_off[OF off]
  show "perform_power_check rt env sid ref st =
        st\<lparr>infos := (infos st)(ref := (infos st ref)
              \<lparr>ci_check_count := ci_check_count (infos st ref) + 1,
               ci_last_check := Some (ce_now_check env)\<rparr>)\<rparr>"
    by (rule eq)
  show "topic (perform_power_check rt env sid ref st) = topic st" by (simp add: eq)
  show "cooling_sessions (perform_power_check rt env sid ref st) = cooling_sessions st"
    by (simp add: eq)
  show "cooling_threads (perform_power_check rt env sid ref st) = cooling_threads st"
    by (simp add: eq)
  show "monitors (perform_power_check rt env sid ref st) = monitors st" by (simp add: eq)
next
  assume nd: "is_dict (ci_server_details (infos st ref)) = False"
  then have nd': "\<not> is_dict (ci_server_details (infos st ref))" by simp
  show off: "dict_get (check_server_power_status rt env sid (ci_server_details (infos st ref)))
        ''is_powered_on'' JNull = JBool False"
    by (rule power_status_off(1)[OF nd'])
  show "dict_get (check_server_power_status rt env sid (ci_server_details (infos st ref)))
        ''power_state'' JNull = JStr ''unknown''"
    by (rule power_status_off(2)[OF nd'])
  show "topic (perform_power_check rt env sid ref st) = topic st"
    by (simp add: perform_power_check_off[OF off])
qed

theorem suppressed_status_updates_witness:
  "dict_get (check_server_power_status sample_runtime (sample_check_env False) (JStr ''150'')
       (ci_server_details (infos monitoring_state 0))) ''is_powered_on'' JNull = JBool False
   \<and> topic (perform_power_check sample_runtime (sample_check_env False) (JStr ''150'') 0
        monitoring_state) = topic monitoring_state
   \<and> cooling_sessions (perform_power_check sample_runtime (sample_check_env False) (JStr ''150'') 0
        monitoring_state) = [(JStr ''150'', 0)]
   \<and> is_dict (ci_server_details (infos flat_state 0)) = False
   \<and> dict_get (check_server_power_status sample_runtime (sample_check_env True) (JStr ''150'')
       (ci_server_details (infos flat_state 0))) ''power_state'' JNull = JStr ''unknown''
   \<and> topic (perform_power_check sample_runtime (sample_check_env True) (JStr ''150'') 0
        flat_state) = topic flat_state"
proof -
  have h1: "dict_get (check_server_power_status sample_runtime (sample_check_env False) (JStr ''150'')
       (ci_server_details (infos monitoring_state 0))) ''is_powered_on'' JNull = JBool False"
    by (simp add: monitoring_state_eq power_status_off(3) sample_check_env_def)
  have h2: "is_dict (ci_server_details (infos flat_state 0)) = False"
    by (simp add: flat_state_eq)
  have s: "cooling_sessions monitoring_state = [(JStr ''150'', 0)]"
    by (simp add: monitoring_state_eq)
  note a = suppressed_status_updates[where rt = sample_runtime and env = "sample_check_env False"
      and sid = "JStr ''150''" and st = monitoring_state and ref = 0]
  note b = suppressed_status_updates[where rt = sample_runtime and env = "sample_check_env True"
      and sid = "JStr ''150''" and st = flat_state and ref = 0]
  from a h1 have a1: "topic (perform_power_check sample_runtime (sample_check_env False) (JStr ''150'') 0
        monitoring_state) = topic monitoring_state"
    and a2: "cooling_sessions (perform_power_check sample_runtime (sample_check_env False) (JStr ''150'') 0
        monitoring_state) = cooling_sessions monitoring_state"
    by blast+
  from b h2 have b1: "dict_get (check_server_power_status sample_runtime (sample_check_env True) (JStr ''150'')
       (ci_server_details (infos flat_state 0))) ''power_state'' JNull = JStr ''unknown''"
    and b2: "topic (perform_power_check sample_runtime (sample_check_env True) (JStr ''150'') 0
        flat_state) = topic flat_state"
    by blast+
  from h1 h2 a1 a2[unfolded s] b1 b2 show ?thesis by blast
qed

section \<open>The end of a session\<close>

lemma handle_cooling_violation_fields [simp]:
  "topic (handle_cooling_violation rt env sid ref ps st)
     = topic st @ [violation_response rt env sid (infos st ref) ps]"
  "infos (handle_cooling_violation rt env sid ref ps st) = infos st"
  "cooling_sessions (handle_cooling_violation rt env sid ref ps st)
     = AList.delete (hash_key sid) (cooling_sessions st)"
  "cooling_threads (handle_cooling_violation rt env sid ref ps st) = cooling_threads st"
  "monitors (handle_cooling_violation rt env sid ref ps st) = monitors st"
  by (simp_all add: handle_cooling_violation_def Let_def)

lemma handle_cooling_error_fields [simp]:
  "topic (handle_cooling_error rt env sid ref e st)
     = (case ci_last_check (infos st ref) of
          None \<Rightarrow> topic st @ [cooling_error_response rt env sid (infos st ref) e]
        | Some t \<Rightarrow> topic st)"
  "infos (handle_cooling_error rt env sid ref e st) = infos st"
  "cooling_sessions (handle_cooling_error rt env sid ref e st)
     = AList.delete (hash_key sid) (cooling_sessions st)"
  "cooling_threads (handle_cooling_error rt env sid ref e st) = cooling_threads st"
  "monitors (handle_cooling_error rt env sid ref e st) = monitors st"
  by (simp_all add: handle_cooling_error_def Let_def split: option.splits)

lemma handle_cooling_complete_Inr:
  assumes "handle_cooling_complete rt env sid ref st = Inr st'"
  shows "\<exists>orig. obj_get (dict_get (ci_original_message (infos st ref)) ''data'' (JObj []))
                  ''original_request'' (JObj []) = Inr orig \<and>
           st' = remove_session sid
                   (send_response (completion_response rt env sid (infos st ref) orig) st)"
  using assms by (auto simp add: handle_cooling_complete_def Let_def split: sum.splits)

lemma handle_cooling_complete_dict:
  assumes "dict_get (ci_original_message (infos st ref)) ''data'' (JObj []) = JObj d"
  shows "handle_cooling_complete rt env sid ref st =
           Inr (remove_session sid
                  (send_response
                     (completion_response rt env sid (infos st ref)
                        (dict_get d ''original_request'' (JObj []))) st))"
  by (simp add: handle_cooling_complete_def Let_def assms obj_get_def)

lemma monitor_ended_no_session:
  "fst (monitor_cooling_period rt sid ref ticks st) = True \<Longrightarrow>
   map_of (cooling_sessions (snd (monitor_cooling_period rt sid ref ticks st))) (hash_key sid) = None"
proof (induction ticks arbitrary: st)
  case Nil
  then show ?case by simp
next
  case (Cons tk tks)
  show ?case
  proof (cases "ci_cooling_end (infos st ref) \<le> tk_now tk")
    case True
    show ?thesis
    proof (cases "handle_cooling_complete rt (tk_complete tk) sid ref st")
      case (Inl e)
      with True show ?thesis by (simp add: map_of_delete_same)
    next
      case (Inr st1)
      from handle_cooling_complete_Inr[OF Inr] obtain orig where
        "st1 = remove_session sid
                   (send_response (completion_response rt (tk_complete tk) sid (infos st ref) orig) st)"
        by blast
      with True Inr show ?thesis by (simp add: map_of_delete_same)
    qed
  next
    case False
    show ?thesis
    proof (cases "tk_fault tk")
      case None
      with False Cons show ?thesis by (simp add: Let_def)
    next
      case (Some e)
      with False show ?thesis by (simp add: Let_def map_of_delete_same)
    qed
  qed
qed

lemma monitoring_info:
  "ci_original_message (infos monitoring_state 0) = cooling_request"
  "ci_cooling_end (infos monitoring_state 0) = 172800003002"
  "ci_cooling_start (infos monitoring_state 0) = 3001"
  "ci_check_count (infos monitoring_state 0) = 0"
  "cooling_sessions monitoring_state = [(JStr ''150'', 0)]"
  "monitors monitoring_state = [0]"
  "topic monitoring_state = []"
  by (simp_all add: monitoring_state_eq cooling_period_hours_def hour_def)

lemma monitoring_complete:
  "handle_cooling_complete sample_runtime sample_complete_env (JStr ''150'') 0 monitoring_state
     = Inr (remove_session (JStr ''150'')
              (send_response
                 (completion_response sample_runtime sample_complete_env (JStr ''150'')
                    (infos monitoring_state 0)
                    (JObj [(''server_id'', JStr ''150''), (''reason'', JStr ''end of life'')]))
                 monitoring_state))"
proof -
  have d: "dict_get (ci_original_message (infos monitoring_state 0)) ''data'' (JObj []) = JObj
     [(''server_id'', JStr ''150''),
      (''server_details'', JObj
         [(''hostname'', JStr ''server-150''),
          (''ip_address'', JStr ''192.168.1.150''),
          (''status'', JStr ''active''),
          (''location'', JStr ''datacenter-1'')]),
      (''poweroff_result'', JObj
         [(''success'', JBool True),
          (''power_status'', JStr ''off''),
          (''poweroff_method'', JStr ''IPMI''),
          (''execution_time'', JStr ''4.5s''),
          (''verification'', JStr ''confirmed_off'')]),
      (''poweroff_timestamp'', JStr (isoformat sample_runtime 2001)),
      (''original_request'',
         JObj [(''server_id'', JStr ''150''), (''reason'', JStr ''end of life'')])]"
    by (simp only: monitoring_info cooling_request_data)
  show ?thesis
    unfolding handle_cooling_complete_dict[OF d] by (simp add: dict_get_def)
qed

lemma monitoring_ends:
  "fst (monitor_cooling_period sample_runtime (JStr ''150'') 0
          [sample_tick 172800004000 False] monitoring_state) = True"
  by (simp add: monitoring_info monitoring_complete sample_tick_def)

text \<open>
  What the three handlers that end a session do to the session map and to the topic:
  each hands its message to the producer and then removes the entry of the server id,
  whichever session that entry belongs to.
\<close>

lemma handlers_remove_session:
  "cooling_sessions (handle_cooling_violation rt cenv sid ref ps st)
      = AList.delete (hash_key sid) (cooling_sessions st)
 \<and> map_of (cooling_sessions (handle_cooling_violation rt cenv sid ref ps st)) (hash_key sid) = None
 \<and> topic (handle_cooling_violation rt cenv sid ref ps st)
      = topic st @ [violation_response rt cenv sid (infos st ref) ps]
 \<and> remove_session sid (handle_cooling_violation rt cenv sid ref ps st)
      = handle_cooling_violation rt cenv sid ref ps st
 \<and> (handle_cooling_complete rt coenv sid ref st = Inr st' \<longrightarrow>
      cooling_sessions st' = AList.delete (hash_key sid) (cooling_sessions st)
    \<and> map_of (cooling_sessions st') (hash_key sid) = None
    \<and> butlast (topic st') = topic st
    \<and> dict_get (last (topic st')) ''action'' JNull = JStr ''demise_server''
    \<and> remove_session sid st' = st')
 \<and> cooling_sessions (handle_cooling_error rt eenv sid ref e st)
      = AList.delete (hash_key sid) (cooling_sessions st)
 \<and> map_of (cooling_sessions (handle_cooling_error rt eenv sid ref e st)) (hash_key sid) = None
 \<and> topic (handle_cooling_error rt eenv sid ref e st)
      = (case ci_last_check (infos st ref) of
           None \<Rightarrow> topic st @ [cooling_error_response rt eenv sid (infos st ref) e]
         | Some t \<Rightarrow> topic st)
 \<and> remove_session sid (handle_cooling_error rt eenv sid ref e st)
      = handle_cooling_error rt eenv sid ref e st
 \<and> (fst (monitor_cooling_period rt sid ref ticks st) = True \<longrightarrow>
      map_of (cooling_sessions (snd (monitor_cooling_period rt sid ref ticks st))) (hash_key sid)
        = None)"
proof -
  have v: "remove_session sid (handle_cooling_violation rt cenv sid ref ps st)
      = handle_cooling_violation rt cenv sid ref ps st"
    by (simp add: handle_cooling_violation_def Let_def remove_session_twice)
  have e: "remove_session sid (handle_cooling_error rt eenv sid ref e st)
      = handle_cooling_error rt eenv sid ref e st"
    by (simp add: handle_cooling_error_def Let_def remove_session_twice)
  have c: "handle_cooling_complete rt coenv sid ref st = Inr st' \<longrightarrow>
      cooling_sessions st' = AList.delete (hash_key sid) (cooling_sessions st)
    \<and> map_of (cooling_sessions st') (hash_key sid) = None
    \<and> butlast (topic st') = topic st
    \<and> dict_get (last (topic st')) ''action'' JNull = JStr ''demise_server''
    \<and> remove_session sid st' = st'"
  proof
    assume "handle_cooling_complete rt coenv sid ref st = Inr st'"
    from handle_cooling_complete_Inr[OF this] obtain orig where
      st': "st' = remove_session sid
                   (send_response (completion_response rt coenv sid (infos st ref) orig) st)"
      by blast
    have a: "dict_get (completion_response rt coenv sid (infos st ref) orig) ''action'' JNull
               = JStr ''demise_server''"
      by (simp add: completion_response_def dict_get_def)
    show "cooling_sessions st' = AList.delete (hash_key sid) (cooling_sessions st)
    \<and> map_of (cooling_sessions st') (hash_key sid) = None
    \<and> butlast (topic st') = topic st
    \<and> dict_get (last (topic st')) ''action'' JNull = JStr ''demise_server''
    \<and> remove_session sid st' = st'"
      by (simp add: st' map_of_delete_same a remove_session_twice)
  qed
  show ?thesis
    using v e c monitor_ended_no_session[of rt sid ref ticks st]
    by (simp add: map_of_delete_same)
qed

section \<open>A second request for a server that is cooling\<close>

lemma cooling_status_fields:
  "dict_get (create_status_response rt uid now m msg) ''action'' JNull = JStr ''cooling_status''"
  "dict_get (create_status_response rt uid now m msg) ''status'' JNull = JStr ''info''"
  "dict_get (create_status_response rt uid now m msg) ''pipeline_complete'' JNull = JNull"
  "dict_get (create_status_response rt uid now m msg) ''data'' JNull = dict_get m ''data'' (JObj [])"
  by (simp_all add: create_status_response_def dict_get_def)

text \<open>
  Claim C6. When a start request names a server id that has a session in the map, the
  processor leaves its state as it is (the session map, the thread map and the list of
  started threads are unchanged, so no second thread exists), and answers with the
  informational message \<open>cooling_status\<close> / \<open>info\<close>, which is not terminal; that answer
  is what the stage sends.
\<close>

theorem cooling_idempotence:
  assumes "data_field m ''server_id'' = Some sid"
      and "truthy sid" and "hashable sid"
      and "hash_key sid \<in> fst ` set (cooling_sessions st)"
  shows "cooling_process_message rt env m st
           = (create_status_response rt (se_uid env) (se_now_msg env) m
                ''Server already in cooling period'', st)
       \<and> cooling_sessions (snd (cooling_process_message rt env m st)) = cooling_sessions st
       \<and> monitors (snd (cooling_process_message rt env m st)) = monitors st
       \<and> cooling_threads (snd (cooling_process_message rt env m st)) = cooling_threads st
       \<and> dict_get (fst (cooling_process_message rt env m st)) ''action'' JNull = JStr ''cooling_status''
       \<and> dict_get (fst (cooling_process_message rt env m st)) ''status'' JNull = JStr ''info''
       \<and> dict_get (fst (cooling_process_message rt env m st)) ''pipeline_complete'' JNull = JNull
       \<and> topic (cooling_handle_message rt env m st)
           = (if cooling_should_process_message m
              then topic st @ [create_status_response rt (se_uid env) (se_now_msg env) m
                                 ''Server already in cooling period'']
              else topic st)"
proof -
  from assms(1) obtain d where d: "dict_get m ''data'' (JObj []) = JObj d"
    and s: "map_of d ''server_id'' = Some sid"
    by (cases "dict_get m ''data'' (JObj [])") (auto simp add: data_field_def)
  have g: "dict_get d ''server_id'' JNull = sid" by (simp add: dict_get_def s)
  have eq: "cooling_process_message rt env m st
           = (create_status_response rt (se_uid env) (se_now_msg env) m
                ''Server already in cooling period'', st)"
    unfolding cooling_process_message_def d using assms(2-4) by (simp add: g Let_def)
  have ne: "create_status_response rt (se_uid env) (se_now_msg env) m
                ''Server already in cooling period'' \<noteq> []"
    by (simp add: create_status_response_def)
  show ?thesis
    by (simp add: eq cooling_status_fields cooling_handle_message_def ne)
qed

theorem cooling_idempotence_witness:
  "data_field cooling_request ''server_id'' = Some (JStr ''150'')
   \<and> hash_key (JStr ''150'') \<in> fst ` set (cooling_sessions monitoring_state)
   \<and> length (cooling_sessions monitoring_state) = 1
   \<and> snd (cooling_process_message sample_runtime sample_start_env cooling_request monitoring_state)
       = monitoring_state
   \<and> length (cooling_sessions
        (snd (cooling_process_message sample_runtime sample_start_env cooling_request
                monitoring_state))) = 1
   \<and> length (monitors
        (snd (cooling_process_message sample_runtime sample_start_env cooling_request
                monitoring_state))) = 1
   \<and> dict_get (fst (cooling_process_message sample_runtime sample_start_env cooling_request
                monitoring_state)) ''action'' JNull = JStr ''cooling_status''"
proof -
  have h1: "data_field cooling_request ''server_id'' = Some (JStr ''150'')"
    unfolding data_field_def cooling_request_data by simp
  have h2: "truthy (JStr ''150'')" by simp
  have h3: "hashable (JStr ''150'')" by simp
  have h4: "hash_key (JStr ''150'') \<in> fst ` set (cooling_sessions monitoring_state)"
    by (simp add: monitoring_info)
  note t = cooling_idempotence[OF h1 h2 h3 h4, where rt = sample_runtime and env = sample_start_env]
  from t have e: "cooling_process_message sample_runtime sample_start_env cooling_request monitoring_state
           = (create_status_response sample_runtime (se_uid sample_start_env) (se_now_msg sample_start_env)
                cooling_request ''Server already in cooling period'', monitoring_state)"
    by blast
  from t have a: "dict_get (fst (cooling_process_message sample_runtime sample_start_env cooling_request
                monitoring_state)) ''action'' JNull = JStr ''cooling_status''"
    by blast
  have s: "snd (cooling_process_message sample_runtime sample_start_env cooling_request monitoring_state)
       = monitoring_state"
    by (simp add: e)
  from h1 h4 a show ?thesis
    by (simp add: s monitoring_info)
qed

section \<open>The monitoring thread over its turns\<close>

lemma perform_power_check_infos:
  "infos (perform_power_check rt env sid ref st) =
     (infos st)(ref := (infos st ref)
        \<lparr>ci_check_count := ci_check_count (infos st ref) + 1,
         ci_last_check := Some (ce_now_check env)\<rparr>)"
  by (simp add: perform_power_check_def Let_def send_status_update_def)

lemma perform_power_check_on:
  assumes "dict_get (check_server_power_status rt env sid (ci_server_details (infos st ref)))
             ''is_powered_on'' JNull = JBool True"
  shows "topic (perform_power_check rt env sid ref st) =
           topic st @
             [violation_response rt env sid
                ((infos st ref)\<lparr>ci_check_count := ci_check_count (infos st ref) + 1,
                                ci_last_check := Some (ce_now_check env)\<rparr>)
                (check_server_power_status rt env sid (ci_server_details (infos st ref)))]"
  using assms by (simp add: perform_power_check_def Let_def)

lemma violation_action:
  "dict_get (violation_response rt env sid info ps) ''action'' JNull = JStr ''cooling_violation_error''"
  by (simp add: violation_response_def dict_get_def)

lemma perform_power_check_topic:
  "\<exists>ms. topic (perform_power_check rt env sid ref st) = topic st @ ms \<and>
        list_all (\<lambda>r. dict_get r ''action'' JNull = JStr ''cooling_violation_error'') ms"
  by (simp add: perform_power_check_def Let_def send_status_update_def violation_action)

lemma monitor_quiet:
  assumes "list_all (quiet_tick e) pre" and "ci_cooling_end (infos st ref) = e"
  shows "monitor_cooling_period rt sid ref (pre @ rest) st =
           monitor_cooling_period rt sid ref rest (snd (monitor_cooling_period rt sid ref pre st))
       \<and> fst (monitor_cooling_period rt sid ref pre st) = False
       \<and> ci_check_count (infos (snd (monitor_cooling_period rt sid ref pre st)) ref)
           = ci_check_count (infos st ref) + int (length pre)
       \<and> ci_cooling_end (infos (snd (monitor_cooling_period rt sid ref pre st)) ref)
           = ci_cooling_end (infos st ref)
       \<and> ci_cooling_start (infos (snd (monitor_cooling_period rt sid ref pre st)) ref)
           = ci_cooling_start (infos st ref)
       \<and> ci_server_details (infos (snd (monitor_cooling_period rt sid ref pre st)) ref)
           = ci_server_details (infos st ref)
       \<and> ci_poweroff_timestamp (infos (snd (monitor_cooling_period rt sid ref pre st)) ref)
           = ci_poweroff_timestamp (infos st ref)
       \<and> ci_original_message (infos (snd (monitor_cooling_period rt sid ref pre st)) ref)
           = ci_original_message (infos st ref)
       \<and> (\<exists>ms. topic (snd (monitor_cooling_period rt sid ref pre st)) = topic st @ ms \<and>
             list_all (\<lambda>r. dict_get r ''action'' JNull = JStr ''cooling_violation_error'') ms)"
  using assms
proof (induction pre arbitrary: st)
  case Nil
  then show ?case by simp
next
  case (Cons tk tks)
  let ?st1 = "perform_power_check rt (tk_check tk) sid ref st"
  from Cons.prems have qs: "list_all (quiet_tick e) tks" and q0: "quiet_tick e tk"
    by simp_all
  from q0 Cons.prems(2) have q: "tk_now tk < ci_cooling_end (infos st ref)" "tk_fault tk = None"
    by (simp_all add: quiet_tick_def)
  have e1: "ci_cooling_end (infos ?st1 ref) = e"
    using Cons.prems(2) by (simp add: perform_power_check_infos)
  have step: "monitor_cooling_period rt sid ref (tk # xs) st = monitor_cooling_period rt sid ref xs ?st1"
    for xs
    using q by (simp add: Let_def)
  note ih = Cons.IH[OF qs e1]
  from perform_power_check_topic[of rt "tk_check tk" sid ref st] obtain ms1 where
    ms1: "topic ?st1 = topic st @ ms1"
      "list_all (\<lambda>r. dict_get r ''action'' JNull = JStr ''cooling_violation_error'') ms1"
    by blast
  from ih obtain ms2 where
    ms2: "topic (snd (monitor_cooling_period rt sid ref tks ?st1)) = topic ?st1 @ ms2"
      "list_all (\<lambda>r. dict_get r ''action'' JNull = JStr ''cooling_violation_error'') ms2"
    by blast
  have t: "\<exists>ms. topic (snd (monitor_cooling_period rt sid ref (tk # tks) st)) = topic st @ ms \<and>
             list_all (\<lambda>r. dict_get r ''action'' JNull = JStr ''cooling_violation_error'') ms"
    using ms1 ms2 by (simp add: step del: monitor_cooling_period.simps)
  from ih t show ?case
    by (simp add: step perform_power_check_infos del: monitor_cooling_period.simps)
qed


lemma violation_fields:
  "dict_get (violation_response rt env sid info ps) ''status'' JNull = JStr ''violation_error''"
  "dict_get (violation_response rt env sid info ps) ''pipeline_complete'' JNull = JBool True"
  "sub_field (data_field (violation_response rt env sid info ps) ''violation_details'')
     ''violation_time'' = Some (JStr (isoformat rt (ce_now_violation env)))"
  "sub_field (data_field (violation_response rt env sid info ps) ''violation_details'')
     ''cooling_elapsed_hours''
     = Some (JFloat (of_int (ce_now_elapsed env - ci_cooling_start info) / of_int hour))"
  "sub_field (data_field (violation_response rt env sid info ps) ''violation_details'')
     ''remaining_hours''
     = Some (JFloat (of_int (ci_cooling_end info - ce_now_remaining env) / of_int hour))"
  "sub_field (data_field (violation_response rt env sid info ps) ''violation_details'')
     ''check_number'' = Some (JInt (ci_check_count info))"
  by (simp_all add: violation_response_def dict_get_def data_field_def sub_field_def)

section \<open>A power check that finds the server on\<close>

text \<open>
  Claim C4. Let a session start with no check counted, and let the thread pass through
  turns that do not end it; the last of them is the n-th. If the power query of that
  turn answers that the server is on, the check appends exactly one message to the
  topic: its action is \<open>cooling_violation_error\<close>, its status \<open>violation_error\<close>, it is
  terminal, and its violation details hold the violation time, the elapsed and the
  remaining cooling hours, and the check number n, which is at least 1.
\<close>

theorem cooling_violation_outcome:
  assumes fresh: "ci_check_count (infos st ref) = 0"
    and quiet: "list_all (quiet_tick (ci_cooling_end (infos st ref))) (pre @ [tk])"
    and on: "dict_get (check_server_power_status rt (tk_check tk) sid
                         (ci_server_details (infos st ref))) ''is_powered_on'' JNull = JBool True"
  shows "(let before = snd (monitor_cooling_period rt sid ref pre st);
              after = snd (monitor_cooling_period rt sid ref (pre @ [tk]) st);
              out = last (topic after);
              details = data_field out ''violation_details''
          in topic after = topic before @ [out]
           \<and> dict_get out ''action'' JNull = JStr ''cooling_violation_error''
           \<and> dict_get out ''status'' JNull = JStr ''violation_error''
           \<and> dict_get out ''pipeline_complete'' JNull = JBool True
           \<and> sub_field details ''violation_time''
               = Some (JStr (isoformat rt (ce_now_violation (tk_check tk))))
           \<and> sub_field details ''cooling_elapsed_hours''
               = Some (JFloat (of_int (ce_now_elapsed (tk_check tk) - ci_cooling_start (infos st ref))
                               / of_int hour))
           \<and> sub_field details ''remaining_hours''
               = Some (JFloat (of_int (ci_cooling_end (infos st ref) - ce_now_remaining (tk_check tk))
                               / of_int hour))
           \<and> sub_field details ''check_number'' = Some (JInt (int (length (pre @ [tk]))))
           \<and> 1 \<le> int (length (pre @ [tk])))"
proof -
  let ?before = "snd (monitor_cooling_period rt sid ref pre st)"
  from quiet have qp: "list_all (quiet_tick (ci_cooling_end (infos st ref))) pre"
    and qt: "quiet_tick (ci_cooling_end (infos st ref)) tk"
    by simp_all
  note inv = monitor_quiet[OF qp refl, of rt sid "[tk]"]
  from inv have split: "monitor_cooling_period rt sid ref (pre @ [tk]) st =
           monitor_cooling_period rt sid ref [tk] ?before"
    by blast
  from inv have cnt: "ci_check_count (infos ?before ref) = int (length pre)"
    and cend: "ci_cooling_end (infos ?before ref) = ci_cooling_end (infos st ref)"
    and cstart: "ci_cooling_start (infos ?before ref) = ci_cooling_start (infos st ref)"
    and det: "ci_server_details (infos ?before ref) = ci_server_details (infos st ref)"
    by (simp_all add: fresh)
  from qt cend have q: "tk_now tk < ci_cooling_end (infos ?before ref)" "tk_fault tk = None"
    by (simp_all add: quiet_tick_def)
  have after: "snd (monitor_cooling_period rt sid ref (pre @ [tk]) st) =
      perform_power_check rt (tk_check tk) sid ref ?before"
    unfolding split using q by (simp add: Let_def)
  from on det have on': "dict_get (check_server_power_status rt (tk_check tk) sid
                         (ci_server_details (infos ?before ref))) ''is_powered_on'' JNull = JBool True"
    by simp
  show ?thesis
    unfolding Let_def after perform_power_check_on[OF on']
    by (simp add: violation_action violation_fields cnt cend cstart)
qed

lemma monitoring_quiet_ticks:
  "list_all (quiet_tick (ci_cooling_end (infos monitoring_state 0)))
     ([sample_tick 7200000000 False, sample_tick 14400000000 False] @ [sample_tick 21600000000 True])"
  by (simp add: monitoring_info quiet_tick_def sample_tick_def)

lemma monitoring_power_on:
  "dict_get (check_server_power_status sample_runtime (tk_check (sample_tick 21600000000 True))
       (JStr ''150'') (ci_server_details (infos monitoring_state 0))) ''is_powered_on'' JNull
     = JBool True"
  by (simp add: monitoring_state_eq power_status_off(3) sample_tick_def sample_check_env_def)

theorem cooling_violation_outcome_witness:
  "ci_check_count (infos monitoring_state 0) = 0
   \<and> list_all (quiet_tick (ci_cooling_end (infos monitoring_state 0)))
        ([sample_tick 7200000000 False, sample_tick 14400000000 False]
         @ [sample_tick 21600000000 True])
   \<and> dict_get (check_server_power_status sample_runtime (tk_check (sample_tick 21600000000 True))
        (JStr ''150'') (ci_server_details (infos monitoring_state 0))) ''is_powered_on'' JNull
       = JBool True
   \<and> dict_get (last (topic (snd (monitor_cooling_period sample_runtime (JStr ''150'') 0
         ([sample_tick 7200000000 False, sample_tick 14400000000 False]
          @ [sample_tick 21600000000 True]) monitoring_state)))) ''action'' JNull
       = JStr ''cooling_violation_error''
   \<and> sub_field (data_field (last (topic (snd (monitor_cooling_period sample_runtime (JStr ''150'') 0
         ([sample_tick 7200000000 False, sample_tick 14400000000 False]
          @ [sample_tick 21600000000 True]) monitoring_state)))) ''violation_details'')
        ''check_number'' = Some (JInt 3)"
proof -
  note t = cooling_violation_outcome[OF monitoring_info(4) monitoring_quiet_ticks
      monitoring_power_on, unfolded Let_def]
  from t have a: "dict_get (last (topic (snd (monitor_cooling_period sample_runtime (JStr ''150'') 0
         ([sample_tick 7200000000 False, sample_tick 14400000000 False]
          @ [sample_tick 21600000000 True]) monitoring_state)))) ''action'' JNull
       = JStr ''cooling_violation_error''"
    by blast
  from t have b: "sub_field (data_field (last (topic (snd (monitor_cooling_period sample_runtime
         (JStr ''150'') 0
         ([sample_tick 7200000000 False, sample_tick 14400000000 False]
          @ [sample_tick 21600000000 True]) monitoring_state)))) ''violation_details'')
        ''check_number''
       = Some (JInt (int (length ([sample_tick 7200000000 False, sample_tick 14400000000 False]
          @ [sample_tick 21600000000 True]))))"
    by blast
  have n: "int (length ([sample_tick 7200000000 False, sample_tick 14400000000 False]
          @ [sample_tick 21600000000 True])) = 3"
    by simp
  from monitoring_info(4) monitoring_quiet_ticks monitoring_power_on a b[unfolded n]
  show ?thesis by blast
qed

section \<open>Accepting a session\<close>


lemma cooling_started_action:
  "dict_get (cooling_started_response rt env m sid info) ''action'' JNull
     = JStr ''cooling_period_started''"
  by (simp add: cooling_started_response_def dict_get_def)



section \<open>Completion of the cooling period\<close>


lemma completion_fields:
  "dict_get (completion_response rt env sid info orig) ''action'' JNull = JStr ''demise_server''"
  "dict_get (completion_response rt env sid info orig) ''status'' JNull = JStr ''pending''"
  "sub_field (data_field (completion_response rt env sid info orig) ''cooling_completion'')
     ''cooling_start'' = Some (JStr (isoformat rt (ci_cooling_start info)))"
  "sub_field (data_field (completion_response rt env sid info orig) ''cooling_completion'')
     ''cooling_end'' = Some (JStr (isoformat rt (ci_cooling_end info)))"
  "sub_field (data_field (completion_response rt env sid info orig) ''cooling_completion'')
     ''actual_completion'' = Some (JStr (isoformat rt (co_now_actual env)))"
  "sub_field (data_field (completion_response rt env sid info orig) ''cooling_completion'')
     ''total_checks_performed'' = Some (JInt (ci_check_count info))"
  by (simp_all add: completion_response_def dict_get_def data_field_def sub_field_def)



section \<open>Sessions that are not destroyed as stated\<close>

lemma perform_power_check_violation:
  assumes "dict_get (check_server_power_status rt env sid (ci_server_details (infos st ref)))
             ''is_powered_on'' JNull = JBool True"
  shows "next_ref (perform_power_check rt env sid ref st) = next_ref st"
    and "cooling_sessions (perform_power_check rt env sid ref st)
           = AList.delete (hash_key sid) (cooling_sessions st)"
    and "cooling_threads (perform_power_check rt env sid ref st) = cooling_threads st"
    and "monitors (perform_power_check rt env sid ref st) = monitors st"
  using assms by (simp_all add: perform_power_check_def Let_def handle_cooling_violation_def)

lemma violated_state_eq:
  "violated_state =
     perform_power_check sample_runtime (sample_check_env True) (JStr ''150'') 0 monitoring_state"
  and violated_alive:
  "fst (monitor_cooling_period sample_runtime (JStr ''150'') 0
          [sample_tick 7200000000 True] monitoring_state) = False"
  by (simp_all add: violated_state_def monitoring_info sample_tick_def Let_def)

lemma monitoring_on:
  "dict_get (check_server_power_status sample_runtime (sample_check_env True) (JStr ''150'')
       (ci_server_details (infos monitoring_state 0))) ''is_powered_on'' JNull = JBool True"
  by (simp add: monitoring_state_eq power_status_off(3) sample_check_env_def)

lemma monitoring_next_ref: "next_ref monitoring_state = Suc 0"
  by (simp add: monitoring_state_eq)

lemma sample_check_now: "ce_now_check (sample_check_env on) = 4000"
  by (simp add: sample_check_env_def)

lemma violated_fields:
  "map (\<lambda>r. dict_get r ''action'' JNull) (topic violated_state) = [JStr ''cooling_violation_error'']"
  "cooling_sessions violated_state = []"
  "monitors violated_state = [0]"
  "next_ref violated_state = Suc 0"
  "ci_cooling_end (infos violated_state 0) = 172800003002"
  "ci_original_message (infos violated_state 0) = cooling_request"
  "ci_last_check (infos violated_state 0) = Some 4000"
  unfolding violated_state_eq
  by (simp_all add: perform_power_check_on[OF monitoring_on]
      perform_power_check_violation[OF monitoring_on] perform_power_check_infos
      violation_action monitoring_info monitoring_next_ref AList.delete_eq sample_check_now)


lemma cooling_accept:
  assumes "dict_get m ''data'' (JObj []) = JObj d"
    and "truthy (dict_get d ''server_id'' JNull)"
    and "hashable (dict_get d ''server_id'' JNull)"
    and "hash_key (dict_get d ''server_id'' JNull) \<notin> fst ` set (cooling_sessions st)"
  shows "dict_get (fst (cooling_process_message rt env m st)) ''action'' JNull
           = JStr ''cooling_period_started''"
    and "cooling_sessions (snd (cooling_process_message rt env m st))
           = AList.update (hash_key (dict_get d ''server_id'' JNull)) (next_ref st)
               (cooling_sessions st)"
    and "monitors (snd (cooling_process_message rt env m st)) = monitors st @ [next_ref st]"
    and "topic (snd (cooling_process_message rt env m st)) = topic st"
    and "next_ref (snd (cooling_process_message rt env m st)) = Suc (next_ref st)"
    and "infos (snd (cooling_process_message rt env m st)) =
           (infos st)(next_ref st :=
               \<lparr>ci_server_id = dict_get d ''server_id'' JNull,
                ci_server_details = dict_get d ''server_details'' (JObj []),
                ci_poweroff_timestamp =
                  dict_get d ''poweroff_timestamp'' (JStr (isoformat rt (se_now_default env))),
                ci_cooling_start = se_now_start env,
                ci_cooling_end = se_now_end env + cooling_period_hours * hour,
                ci_original_message = m,
                ci_check_count = 0,
                ci_last_check = None,
                ci_status = ''monitoring''\<rparr>)"
  unfolding cooling_process_message_def assms(1)
  using assms(2-4)
  by (simp_all add: Let_def cooling_started_action start_cooling_monitor_def)

lemma cooling_request_id:
  "dict_get
     [(''server_id'', JStr ''150''),
      (''server_details'', JObj
         [(''hostname'', JStr ''server-150''),
          (''ip_address'', JStr ''192.168.1.150''),
          (''status'', JStr ''active''),
          (''location'', JStr ''datacenter-1'')]),
      (''poweroff_result'', JObj
         [(''success'', JBool True),
          (''power_status'', JStr ''off''),
          (''poweroff_method'', JStr ''IPMI''),
          (''execution_time'', JStr ''4.5s''),
          (''verification'', JStr ''confirmed_off'')]),
      (''poweroff_timestamp'', JStr (isoformat sample_runtime 2001)),
      (''original_request'',
         JObj [(''server_id'', JStr ''150''), (''reason'', JStr ''end of life'')])]
     ''server_id'' JNull = JStr ''150''"
  by (simp add: dict_get_def)

lemma restarted_fields:
  "dict_get (fst (cooling_process_message sample_runtime second_start_env cooling_request
                    violated_state)) ''action'' JNull = JStr ''cooling_period_started''"
  "cooling_sessions restarted_state = [(JStr ''150'', Suc 0)]"
  "monitors restarted_state = [0, Suc 0]"
  "topic restarted_state = topic violated_state"
  "ci_cooling_end (infos restarted_state 0) = 172800003002"
  "ci_original_message (infos restarted_state 0) = cooling_request"
  "ci_cooling_end (infos restarted_state (Suc 0)) = 180100000002"
  "ci_server_details (infos restarted_state (Suc 0)) = JObj
         [(''hostname'', JStr ''server-150''),
          (''ip_address'', JStr ''192.168.1.150''),
          (''status'', JStr ''active''),
          (''location'', JStr ''datacenter-1'')]"
proof -
  have t: "truthy (dict_get
     [(''server_id'', JStr ''150''),
      (''server_details'', JObj
         [(''hostname'', JStr ''server-150''),
          (''ip_address'', JStr ''192.168.1.150''),
          (''status'', JStr ''active''),
          (''location'', JStr ''datacenter-1'')]),
      (''poweroff_result'', JObj
         [(''success'', JBool True),
          (''power_status'', JStr ''off''),
          (''poweroff_method'', JStr ''IPMI''),
          (''execution_time'', JStr ''4.5s''),
          (''verification'', JStr ''confirmed_off'')]),
      (''poweroff_timestamp'', JStr (isoformat sample_runtime 2001)),
      (''original_request'',
         JObj [(''server_id'', JStr ''150''), (''reason'', JStr ''end of life'')])]
     ''server_id'' JNull)"
    by (simp add: cooling_request_id)
  have h: "hashable (dict_get
     [(''server_id'', JStr ''150''),
      (''server_details'', JObj
         [(''hostname'', JStr ''server-150''),
          (''ip_address'', JStr ''192.168.1.150''),
          (''status'', JStr ''active''),
          (''location'', JStr ''datacenter-1'')]),
      (''poweroff_result'', JObj
         [(''success'', JBool True),
          (''power_status'', JStr ''off''),
          (''poweroff_method'', JStr ''IPMI''),
          (''execution_time'', JStr ''4.5s''),
          (''verification'', JStr ''confirmed_off'')]),
      (''poweroff_timestamp'', JStr (isoformat sample_runtime 2001)),
      (''original_request'',
         JObj [(''server_id'', JStr ''150''), (''reason'', JStr ''end of life'')])]
     ''server_id'' JNull)"
    by (simp add: cooling_request_id)
  have n: "hash_key (dict_get
     [(''server_id'', JStr ''150''),
      (''server_details'', JObj
         [(''hostname'', JStr ''server-150''),
          (''ip_address'', JStr ''192.168.1.150''),
          (''status'', JStr ''active''),
          (''location'', JStr ''datacenter-1'')]),
      (''poweroff_result'', JObj
         [(''success'', JBool True),
          (''power_status'', JStr ''off''),
          (''poweroff_method'', JStr ''IPMI''),
          (''execution_time'', JStr ''4.5s''),
          (''verification'', JStr ''confirmed_off'')]),
      (''poweroff_timestamp'', JStr (isoformat sample_runtime 2001)),
      (''original_request'',
         JObj [(''server_id'', JStr ''150''), (''reason'', JStr ''end of life'')])]
     ''server_id'' JNull) \<notin> fst ` set (cooling_sessions violated_state)"
    by (simp add: violated_fields)
  note a = cooling_accept[OF cooling_request_data t h n, where rt = sample_runtime
      and env = second_start_env]
  show "dict_get (fst (cooling_process_message sample_runtime second_start_env cooling_request
                    violated_state)) ''action'' JNull = JStr ''cooling_period_started''"
    by (rule a(1))
  show "cooling_sessions restarted_state = [(JStr ''150'', Suc 0)]"
    unfolding restarted_state_def a(2) by (simp add: cooling_request_id violated_fields)
  show "monitors restarted_state = [0, Suc 0]"
    unfolding restarted_state_def a(3) by (simp add: violated_fields)
  show "topic restarted_state = topic violated_state"
    unfolding restarted_state_def a(4) by simp
  show "ci_cooling_end (infos restarted_state 0) = 172800003002"
    unfolding restarted_state_def a(6) by (simp add: violated_fields)
  show "ci_original_message (infos restarted_state 0) = cooling_request"
    unfolding restarted_state_def a(6) by (simp add: violated_fields)
  show "ci_cooling_end (infos restarted_state (Suc 0)) = 180100000002"
    unfolding restarted_state_def a(6)
    by (simp add: violated_fields second_start_env_def cooling_period_hours_def hour_def)
  show "ci_server_details (infos restarted_state (Suc 0)) = JObj
         [(''hostname'', JStr ''server-150''),
          (''ip_address'', JStr ''192.168.1.150''),
          (''status'', JStr ''active''),
          (''location'', JStr ''datacenter-1'')]"
    unfolding restarted_state_def a(6) by (simp add: violated_fields dict_get_def)
qed


lemma overrun_run:
  "monitor_cooling_period sample_runtime (JStr ''150'') 0
     [sample_tick 172800004000 False] restarted_state =
   (True, thread_cleanup (JStr ''150'')
            (remove_session (JStr ''150'')
               (send_response
                  (completion_response sample_runtime sample_complete_env (JStr ''150'')
                     (infos restarted_state 0)
                     (JObj [(''server_id'', JStr ''150''), (''reason'', JStr ''end of life'')]))
                  restarted_state)))"
proof -
  have dd: "dict_get (ci_original_message (infos restarted_state 0)) ''data'' (JObj []) = JObj
     [(''server_id'', JStr ''150''),
      (''server_details'', JObj
         [(''hostname'', JStr ''server-150''),
          (''ip_address'', JStr ''192.168.1.150''),
          (''status'', JStr ''active''),
          (''location'', JStr ''datacenter-1'')]),
      (''poweroff_result'', JObj
         [(''success'', JBool True),
          (''power_status'', JStr ''off''),
          (''poweroff_method'', JStr ''IPMI''),
          (''execution_time'', JStr ''4.5s''),
          (''verification'', JStr ''confirmed_off'')]),
      (''poweroff_timestamp'', JStr (isoformat sample_runtime 2001)),
      (''original_request'',
         JObj [(''server_id'', JStr ''150''), (''reason'', JStr ''end of life'')])]"
    by (simp only: restarted_fields cooling_request_data)
  have c: "handle_cooling_complete sample_runtime sample_complete_env (JStr ''150'') 0 restarted_state
     = Inr (remove_session (JStr ''150'')
               (send_response
                  (completion_response sample_runtime sample_complete_env (JStr ''150'')
                     (infos restarted_state 0)
                     (JObj [(''server_id'', JStr ''150''), (''reason'', JStr ''end of life'')]))
                  restarted_state))"
    unfolding handle_cooling_complete_dict[OF dd] by (simp add: dict_get_def)
  show ?thesis
    by (simp add: restarted_fields sample_tick_def c)
qed

lemma overrun_fields:
  "map (\<lambda>r. dict_get r ''action'' JNull) (topic overrun_state)
     = [JStr ''cooling_violation_error'', JStr ''demise_server'']"
  "cooling_sessions overrun_state = []"
  "monitors overrun_state = [0, Suc 0]"
  "infos overrun_state = infos restarted_state"
  unfolding overrun_state_def overrun_run
  by (simp_all add: restarted_fields violated_fields completion_fields AList.delete_eq)

lemma second_thread_alive:
  "monitor_cooling_period sample_runtime (JStr ''150'') (Suc 0)
     [sample_tick 172800005000 False] overrun_state =
   (False, overrun_state\<lparr>infos := (infos overrun_state)(Suc 0 := (infos overrun_state (Suc 0))
              \<lparr>ci_check_count := ci_check_count (infos overrun_state (Suc 0)) + 1,
               ci_last_check := Some (ce_now_check (sample_check_env False))\<rparr>)\<rparr>)"
proof -
  have off: "dict_get (check_server_power_status sample_runtime (sample_check_env False) (JStr ''150'')
       (ci_server_details (infos overrun_state (Suc 0)))) ''is_powered_on'' JNull = JBool False"
    by (simp add: overrun_fields restarted_fields power_status_off(3) sample_check_env_def)
  have e: "ci_cooling_end (infos overrun_state (Suc 0)) = 180100000002"
    by (simp add: overrun_fields restarted_fields)
  show ?thesis
    by (simp add: e sample_tick_def Let_def perform_power_check_off[OF off])
qed

lemma faulty_run:
  "fst (monitor_cooling_period sample_runtime (JStr ''150'') 0 [faulty_tick] monitoring_state) = True"
  "topic (snd (monitor_cooling_period sample_runtime (JStr ''150'') 0 [faulty_tick]
                 monitoring_state)) = []"
  "cooling_sessions (snd (monitor_cooling_period sample_runtime (JStr ''150'') 0 [faulty_tick]
                 monitoring_state)) = []"
proof -
  have off: "dict_get (check_server_power_status sample_runtime (sample_check_env False) (JStr ''150'')
       (ci_server_details (infos monitoring_state 0))) ''is_powered_on'' JNull = JBool False"
    by (simp add: monitoring_state_eq power_status_off(3) sample_check_env_def)
  have r: "monitor_cooling_period sample_runtime (JStr ''150'') 0 [faulty_tick] monitoring_state =
      (True, thread_cleanup (JStr ''150'')
               (handle_cooling_error sample_runtime sample_error_env (JStr ''150'') 0 ''interrupted''
                  (monitoring_state\<lparr>infos := (infos monitoring_state)(0 := (infos monitoring_state 0)
                      \<lparr>ci_check_count := ci_check_count (infos monitoring_state 0) + 1,
                       ci_last_check := Some (ce_now_check (sample_check_env False))\<rparr>)\<rparr>)))"
    by (simp add: faulty_tick_def sample_tick_def monitoring_info Let_def
        perform_power_check_off[OF off])
  show "fst (monitor_cooling_period sample_runtime (JStr ''150'') 0 [faulty_tick] monitoring_state) = True"
    unfolding r by simp
  show "topic (snd (monitor_cooling_period sample_runtime (JStr ''150'') 0 [faulty_tick]
                 monitoring_state)) = []"
    unfolding r by (simp add: monitoring_info)
  show "cooling_sessions (snd (monitor_cooling_period sample_runtime (JStr ''150'') 0 [faulty_tick]
                 monitoring_state)) = []"
    unfolding r by (simp add: monitoring_info AList.delete_eq)
qed

text \<open>
  Claim C7 says that, whichever branch ends a session, its server id is removed from the
  session map exactly once, after the message of that branch has been sent. The sample
  run shows otherwise. The first check of the session of server 150 finds the server on:
  the violation message is sent and the entry removed, but the thread is not ended. A
  second request for server 150 is therefore accepted, with a session and a thread of
  its own. When the first thread reaches the end of its cooling period it sends
  \<open>demise_server\<close> and removes the entry of server 150, which now belongs to the second
  session: that session has sent no message and its thread goes on checking, with no
  entry in the map. Further, when an exception ends the thread after a check, the
  session is removed although no message reaches the topic.
\<close>

theorem session_destruction_failure:
  "fst (monitor_cooling_period sample_runtime (JStr ''150'') 0
          [sample_tick 7200000000 True] monitoring_state) = False
   \<and> map (\<lambda>r. dict_get r ''action'' JNull) (topic violated_state)
       = [JStr ''cooling_violation_error'']
   \<and> cooling_sessions violated_state = []
   \<and> dict_get (fst (cooling_process_message sample_runtime second_start_env cooling_request
                    violated_state)) ''action'' JNull = JStr ''cooling_period_started''
   \<and> cooling_sessions restarted_state = [(JStr ''150'', Suc 0)]
   \<and> monitors restarted_state = [0, Suc 0]
   \<and> fst (monitor_cooling_period sample_runtime (JStr ''150'') 0
            [sample_tick 172800004000 False] restarted_state) = True
   \<and> map (\<lambda>r. dict_get r ''action'' JNull) (topic overrun_state)
       = [JStr ''cooling_violation_error'', JStr ''demise_server'']
   \<and> cooling_sessions overrun_state = []
   \<and> fst (monitor_cooling_period sample_runtime (JStr ''150'') (Suc 0)
            [sample_tick 172800005000 False] overrun_state) = False
   \<and> topic (snd (monitor_cooling_period sample_runtime (JStr ''150'') (Suc 0)
            [sample_tick 172800005000 False] overrun_state)) = topic overrun_state
   \<and> fst (monitor_cooling_period sample_runtime (JStr ''150'') 0 [faulty_tick] monitoring_state)
       = True
   \<and> topic (snd (monitor_cooling_period sample_runtime (JStr ''150'') 0 [faulty_tick]
                    monitoring_state)) = []
   \<and> cooling_sessions (snd (monitor_cooling_period sample_runtime (JStr ''150'') 0 [faulty_tick]
                    monitoring_state)) = []"
  by (simp add: violated_alive violated_fields restarted_fields overrun_run overrun_fields
      second_thread_alive faulty_run del: monitor_cooling_period.simps)

end
